theory Spec2Isabelle
  imports Complex_Main "HOL-Library.Sublist"
begin

section \<open>Script validation\<close>

text \<open>
  Script text is a Python \<^verbatim>\<open>str\<close>. It is modelled as a \<^typ>\<open>string\<close>, read as the
  UTF-8 bytes of the text: the needles searched for are ASCII, and a substring search on
  the bytes of well-formed UTF-8 finds what the search on code points finds.

  Python's \<^verbatim>\<open>needle in haystack\<close> on two strings is the search for a contiguous
  occurrence; the empty needle occurs in every string.
\<close>

fun str_in :: "string \<Rightarrow> string \<Rightarrow> bool" where
  "str_in needle [] = (needle = [])"
| "str_in needle (c # cs) = (prefix needle (c # cs) \<or> str_in needle cs)"

text \<open>The list \<^verbatim>\<open>dangerous_imports\<close> of \<^verbatim>\<open>validate_script\<close>, in the order of the source.\<close>

definition dangerous_imports :: "string list" where
  "dangerous_imports =
     [''subprocess'', ''os.system'', ''eval'', ''exec'', ''open'',
      ''__import__'', ''compile'', ''globals'', ''locals'']"

text \<open>
  \<^verbatim>\<open>
  for dangerous in dangerous_imports:
      if dangerous in script_content:
          return False, f"Dangerous function/import detected: {dangerous}"
  \<close>
  The loop returns at the first entry found; \<open>None\<close> is the loop running to its end.
\<close>

fun first_dangerous :: "string list \<Rightarrow> string \<Rightarrow> string option" where
  "first_dangerous [] script_content = None"
| "first_dangerous (dangerous # rest) script_content =
     (if str_in dangerous script_content then Some dangerous
      else first_dangerous rest script_content)"

text \<open>
  \<^verbatim>\<open>validate_script\<close> is the same text in both deployables (\<^verbatim>\<open>cloud-render/app.py\<close>
  and \<^verbatim>\<open>cloud-render/render-com/app.py\<close>). Its \<^verbatim>\<open>except Exception\<close> branch is dead for a
  \<^verbatim>\<open>str\<close> argument: no operation of the body raises on strings.
\<close>

definition validate_script :: "string \<Rightarrow> bool \<times> string" where
  "validate_script script_content =
     (case first_dangerous dangerous_imports script_content of
        Some dangerous \<Rightarrow> (False, ''Dangerous function/import detected: '' @ dangerous)
      | None \<Rightarrow>
          if \<not> str_in ''from manim import'' script_content
             \<and> \<not> str_in ''import manim'' script_content
          then (False, ''Script must import manim'')
          else if \<not> str_in ''class'' script_content \<or> \<not> str_in ''Scene'' script_content
          then (False, ''Script must contain a Scene class'')
          else (True, ''Script validation passed''))"

section \<open>Values, files and the outside world\<close>

text \<open>
  The values that occur in result dictionaries and response bodies. A Python \<^verbatim>\<open>dict\<close>
  built by a literal keeps its keys in insertion order: an association list.
  \<open>JFloat\<close> carries an ideal real number where Python has a double. The same values are
  what a JSON request body can hold.
\<close>

datatype json =
    JNull
  | JBool bool
  | JInt int
  | JFloat real
  | JStr string
  | JList "json list"
  | JDict "(string \<times> json) list"

type_synonym pydict = "(string \<times> json) list"

text \<open>
  The file system holds regular files: a path and its bytes, in the order in which a
  directory walk meets them. Paths are strings; \<^verbatim>\<open>Path(d) / name\<close> is \<open>d @ ''/'' @ name\<close>
  (request identifiers are single path components: the handler generates UUID strings and
  the routes take one URL segment).
\<close>

type_synonym path = string
type_synonym fs = "(path \<times> string) list"

definition fs_read :: "path \<Rightarrow> fs \<Rightarrow> string option" where
  "fs_read p files_now = map_of files_now p"

definition fs_write :: "path \<Rightarrow> string \<Rightarrow> fs \<Rightarrow> fs" where
  "fs_write p content files_now =
     (if p \<in> fst ` set files_now
      then map (\<lambda>(q, old). if q = p then (q, content) else (q, old)) files_now
      else files_now @ [(p, content)])"

definition fs_unlink :: "path \<Rightarrow> fs \<Rightarrow> fs" where
  "fs_unlink p files_now = filter (\<lambda>(q, content). q \<noteq> p) files_now"

definition basename :: "path \<Rightarrow> string" where
  "basename p = rev (takeWhile (\<lambda>c. c \<noteq> CHR ''/'') (rev p))"

text \<open>
  \<^verbatim>\<open>directory.rglob(pattern)\<close>: the paths below \<open>directory\<close> whose last component matches
  the pattern. The matcher is the library's \<^verbatim>\<open>fnmatch\<close> and is a parameter of the model.
\<close>

definition rglob :: "(string \<Rightarrow> string \<Rightarrow> bool) \<Rightarrow> path \<Rightarrow> string \<Rightarrow> fs \<Rightarrow> path list" where
  "rglob matches directory pattern files_now =
     filter (\<lambda>p. prefix (directory @ ''/'') p \<and> p \<noteq> directory @ ''/''
                  \<and> matches (basename p) pattern)
            (map fst files_now)"

text \<open>
  A matcher for the patterns \<^verbatim>\<open>*<literal>\<close>, such as \<^verbatim>\<open>*.mp4\<close>: the name ends with the
  literal. It serves where a concrete outside world is needed.
\<close>

definition fnmatch_literal :: "string \<Rightarrow> string \<Rightarrow> bool" where
  "fnmatch_literal name pattern =
     (case pattern of
        [] \<Rightarrow> name = []
      | c # literal \<Rightarrow> if c = CHR ''*'' then suffix literal name else name = pattern)"

text \<open>What \<^verbatim>\<open>subprocess.run\<close> can do: raise \<^verbatim>\<open>TimeoutExpired\<close>, raise another
  exception (the executable is missing), or return a completed process with its return
  code, standard output and standard error. The process leaves a file system behind.\<close>

datatype run_outcome =
    TimeoutExpired fs
  | LaunchError string
  | CompletedProcess int string string fs

text \<open>The files a process left behind, when it ran.\<close>

fun files_left_by :: "run_outcome \<Rightarrow> fs option" where
  "files_left_by (TimeoutExpired files_left) = Some files_left"
| "files_left_by (LaunchError message) = None"
| "files_left_by (CompletedProcess returncode out err files_left) = Some files_left"

text \<open>
  The configuration read from the environment at start-up, the clients that start-up
  managed to create, and the collaborators outside the repository: the identifier
  generator, the clock, the glob matcher, the rendering tool, Python's \<^verbatim>\<open>str()\<close> on a value
  that is not a string, and the faults that the operating system and the storage and
  monitoring services may answer with (\<open>Some message\<close> is the text of the exception
  raised). \<open>unlink_fault\<close> is the answer to \<^verbatim>\<open>Path.unlink\<close> on the scratch script file: the
  path may be one that cannot be removed (a directory, a file in a directory that denies
  it).
\<close>

record env =
  default_quality :: string
  default_format :: string
  max_render_time :: int
  bucket_name :: string
  has_storage_client :: bool
  has_monitoring_client :: bool
  uuid4 :: "nat \<Rightarrow> string"
  utcnow :: string
  elapsed :: real
  fnmatch :: "string \<Rightarrow> string \<Rightarrow> bool"
  manim :: "string list \<Rightarrow> fs \<Rightarrow> run_outcome"
  py_str :: "json \<Rightarrow> string"
  write_fault :: "string option"
  mkdir_fault :: "string option"
  upload_fault :: "string option"
  unlink_fault :: "string option"
  metrics_fault :: "string option"

text \<open>
  The state the service acts on: the files, and a log of each outward action (the commands
  handed to \<^verbatim>\<open>subprocess.run\<close>, the objects stored in the bucket, the paths the service
  itself called \<^verbatim>\<open>unlink\<close> on, the measurements delivered to monitoring as file size and success flag,
  and the number of identifiers drawn from the generator).
\<close>

record world =
  files :: fs
  launched :: "string list list"
  blobs :: "(string \<times> string) list"
  unlinked :: "path list"
  metrics :: "(nat \<times> bool) list"
  uuid_count :: nat

definition OUTPUT_DIR :: path where
  "OUTPUT_DIR = ''/app/output''"

definition TEMP_DIR :: path where
  "TEMP_DIR = ''/app/temp''"

text \<open>The exceptions the \<^verbatim>\<open>try\<close> block of \<^verbatim>\<open>render_script\<close> can end with: the handlers
  tell \<^verbatim>\<open>subprocess.TimeoutExpired\<close> from every other \<^verbatim>\<open>Exception\<close>, of which they use
  \<^verbatim>\<open>str(e)\<close>.\<close>

datatype exn = Timeout | Error string

definition no_such_file :: "path \<Rightarrow> string" where
  "no_such_file p = ''[Errno 2] No such file or directory: '' @ [CHR 0x27] @ p @ [CHR 0x27]"

text \<open>\<^verbatim>\<open>x or default\<close> on an optional string: \<^verbatim>\<open>None\<close> and the empty string are falsy.\<close>

definition or_default :: "string option \<Rightarrow> string \<Rightarrow> string" where
  "or_default x d = (case x of None \<Rightarrow> d | Some s \<Rightarrow> if s = [] then d else s)"

text \<open>\<^verbatim>\<open>str(n)\<close> of an integer, for the timeout message.\<close>

fun str_nat :: "nat \<Rightarrow> string" where
  "str_nat n = (if n < 10 then [''0123456789'' ! n]
                else str_nat (n div 10) @ [''0123456789'' ! (n mod 10)])"

declare str_nat.simps [simp del]

definition str_int :: "int \<Rightarrow> string" where
  "str_int i = (if i < 0 then CHR ''-'' # str_nat (nat (- i)) else str_nat (nat i))"

text \<open>
  \<^verbatim>\<open>script_file.unlink(missing_ok=True)\<close>: the file is removed, and a missing file is no
  error; or the call raises and the path stays as it is. The result is the text of the
  exception, if one is raised.
\<close>

definition unlink_missing_ok :: "env \<Rightarrow> path \<Rightarrow> world \<Rightarrow> string option \<times> world" where
  "unlink_missing_ok e p w =
     (case unlink_fault e of
        Some message \<Rightarrow> (Some message, w\<lparr>unlinked := unlinked w @ [p]\<rparr>)
      | None \<Rightarrow> (None, w\<lparr>files := fs_unlink p (files w), unlinked := unlinked w @ [p]\<rparr>))"

text \<open>
  The \<^verbatim>\<open>finally\<close> clause of \<^verbatim>\<open>render_script\<close>:
  \<^verbatim>\<open>
  try:
      script_file = self.temp_dir / f"script_{request_id}.py"
      script_file.unlink(missing_ok=True)
  except:
      pass
  \<close>
  An exception of the unlink is swallowed.
\<close>

definition finally_cleanup :: "env \<Rightarrow> string \<Rightarrow> world \<Rightarrow> world" where
  "finally_cleanup e request_id w =
     (case unlink_missing_ok e (TEMP_DIR @ ''/script_'' @ request_id @ ''.py'') w of
        (raised, w1) \<Rightarrow> w1)"

text \<open>
  Truthiness of a value, and \<^verbatim>\<open>quality or config.DEFAULT_QUALITY\<close> on the quality a
  caller passes, which the handler takes from the request body as it is.
\<close>

fun truthy :: "json \<Rightarrow> bool" where
  "truthy JNull = False"
| "truthy (JBool b) = b"
| "truthy (JInt i) = (i \<noteq> 0)"
| "truthy (JFloat r) = (r \<noteq> 0)"
| "truthy (JStr s) = (s \<noteq> [])"
| "truthy (JList xs) = (xs \<noteq> [])"
| "truthy (JDict kvs) = (kvs \<noteq> [])"

definition py_or :: "json \<Rightarrow> string \<Rightarrow> json" where
  "py_or x d = (if truthy x then x else JStr d)"

text \<open>\<^verbatim>\<open>f'{value}'\<close>: a string is taken as it is, another value through \<^verbatim>\<open>str()\<close>.\<close>

definition format_value :: "env \<Rightarrow> json \<Rightarrow> string" where
  "format_value e v = (case v of JStr s \<Rightarrow> s | _ \<Rightarrow> py_str e v)"

definition failure_result :: "env \<Rightarrow> string \<Rightarrow> string \<Rightarrow> pydict" where
  "failure_result e error_msg request_id =
     [(''success'', JBool False),
      (''error'', JStr error_msg),
      (''request_id'', JStr request_id),
      (''timestamp'', JStr (utcnow e))]"

definition json_of_option :: "string option \<Rightarrow> json" where
  "json_of_option x = (case x of None \<Rightarrow> JNull | Some s \<Rightarrow> JStr s)"

definition build_cmd :: "path \<Rightarrow> string \<Rightarrow> path \<Rightarrow> string list \<Rightarrow> string \<Rightarrow> string option
    \<Rightarrow> string list" where
  "build_cmd script_file request_id render_output_dir quality_args format scene_name =
     [''manim'', script_file, ''--output_file'', ''video_'' @ request_id,
      ''--media_dir'', render_output_dir] @ quality_args
     @ [''--format'', format, ''--disable_caching'']
     @ (case scene_name of None \<Rightarrow> [] | Some n \<Rightarrow> if n = [] then [] else [n])"

text \<open>\<^verbatim>\<open>self.temp_dir / f"script_{request_id}.py"\<close> and \<^verbatim>\<open>self.output_dir / request_id\<close>\<close>

definition script_file_of :: "string \<Rightarrow> path" where
  "script_file_of request_id = TEMP_DIR @ ''/script_'' @ request_id @ ''.py''"

definition render_output_dir_of :: "string \<Rightarrow> path" where
  "render_output_dir_of request_id = OUTPUT_DIR @ ''/'' @ request_id"

text \<open>
  The \<^verbatim>\<open>try\<close> block of \<^verbatim>\<open>render_script\<close> from the validation to the choice of the video
  file (variant A lines 166 to 216, variant B lines 135 to 185). The two files have the
  same text here but for the quality arguments of the command, which are a parameter.
  The result is the exception that leaves the block, or the standard output and standard
  error of the process and the first file found.
\<close>

definition run_and_locate :: "env \<Rightarrow> string \<Rightarrow> string \<Rightarrow> string list \<Rightarrow> string
    \<Rightarrow> string option \<Rightarrow> world \<Rightarrow> (exn + string \<times> string \<times> path) \<times> world" where
  "run_and_locate e script_content request_id quality_args format scene_name w =
     (case validate_script script_content of
        (is_valid, validation_message) \<Rightarrow>
          if \<not> is_valid
          then (Inl (Error (''Script validation failed: '' @ validation_message)), w)
          else
            (let script_file = script_file_of request_id in
             case write_fault e of
               Some message \<Rightarrow> (Inl (Error message), w)
             | None \<Rightarrow>
                 (let w1 = w\<lparr>files := fs_write script_file script_content (files w)\<rparr>;
                      render_output_dir = render_output_dir_of request_id
                  in case mkdir_fault e of
                       Some message \<Rightarrow> (Inl (Error message), w1)
                     | None \<Rightarrow>
                         (let cmd = build_cmd script_file request_id render_output_dir
                                      quality_args format scene_name;
                              w2 = w1\<lparr>launched := launched w1 @ [cmd]\<rparr>
                          in case manim e cmd (files w1) of
                               TimeoutExpired files_left \<Rightarrow>
                                 (Inl Timeout, w2\<lparr>files := files_left\<rparr>)
                             | LaunchError message \<Rightarrow> (Inl (Error message), w2)
                             | CompletedProcess returncode out err files_left \<Rightarrow>
                                 (let w3 = w2\<lparr>files := files_left\<rparr> in
                                  if returncode \<noteq> 0
                                  then (Inl (Error (''Manim rendering failed: '' @ err)), w3)
                                  else
                                    (case rglob (fnmatch e) render_output_dir
                                            (''*.'' @ format) (files w3) of
                                       [] \<Rightarrow>
                                         (Inl (Error ''No video file found after rendering''), w3)
                                     | video_file # others \<Rightarrow>
                                         (Inr (out, err, video_file), w3)))))))"

section \<open>Variant A: rendering with upload to object storage (\<^verbatim>\<open>cloud-render/app.py\<close>)\<close>

definition quality_mapping :: "(string \<times> string) list" where
  "quality_mapping =
     [(''low_quality'', ''l''),
      (''medium_quality'', ''m''),
      (''high_quality'', ''h''),
      (''production_quality'', ''p''),
      (''4k_quality'', ''k'')]"

text \<open>\<^verbatim>\<open>quality_mapping.get(quality, 'm')\<close> on a string.\<close>

definition quality_flag_of :: "string \<Rightarrow> string" where
  "quality_flag_of quality =
     (case map_of quality_mapping quality of Some flag \<Rightarrow> flag | None \<Rightarrow> ''m'')"

text \<open>
  \<^verbatim>\<open>quality_mapping.get(quality, 'm')\<close> on any value: the look-up hashes the key, and a
  list or a dictionary raises \<^verbatim>\<open>TypeError\<close> (\<open>Inl\<close>, with the text of the exception); a
  number, a truth value or \<^verbatim>\<open>None\<close> is no key of the table.
\<close>

definition unhashable :: "string \<Rightarrow> string" where
  "unhashable type_name = ''unhashable type: '' @ [CHR 0x27] @ type_name @ [CHR 0x27]"

definition quality_mapping_get :: "json \<Rightarrow> string + string" where
  "quality_mapping_get quality =
     (case quality of
        JStr name \<Rightarrow> Inr (quality_flag_of name)
      | JList xs \<Rightarrow> Inl (unhashable ''list'')
      | JDict kvs \<Rightarrow> Inl (unhashable ''dict'')
      | _ \<Rightarrow> Inr ''m'')"

text \<open>
  \<^verbatim>\<open>_upload_to_gcs\<close>: the upload reads the local file and stores it under the blob name; an
  exception of the storage client is logged and raised again.
\<close>

definition upload_to_gcs :: "env \<Rightarrow> path \<Rightarrow> string \<Rightarrow> world \<Rightarrow> (exn + string) \<times> world" where
  "upload_to_gcs e local_file blob_name w =
     (case upload_fault e of
        Some message \<Rightarrow> (Inl (Error message), w)
      | None \<Rightarrow>
          (case fs_read local_file (files w) of
             None \<Rightarrow> (Inl (Error (no_such_file local_file)), w)
           | Some content \<Rightarrow>
               (Inr (''gs://'' @ bucket_name e @ ''/'' @ blob_name),
                w\<lparr>blobs := blobs w @ [(blob_name, content)]\<rparr>)))"

text \<open>
  \<^verbatim>\<open>_report_metrics\<close> returns at once without a monitoring client, and swallows every
  exception of the client. The render time it sends is a clock reading and is not logged.
\<close>

definition report_metrics :: "env \<Rightarrow> nat \<Rightarrow> bool \<Rightarrow> world \<Rightarrow> world" where
  "report_metrics e file_size success w =
     (if \<not> has_monitoring_client e then w
      else case metrics_fault e of
             Some message \<Rightarrow> w
           | None \<Rightarrow> w\<lparr>metrics := metrics w @ [(file_size, success)]\<rparr>)"

text \<open>
  The \<^verbatim>\<open>try\<close> block of \<^verbatim>\<open>render_script\<close> from the upload on (lines 218 to 260), reached
  with the first file the search found.
\<close>

definition dispose_A :: "env \<Rightarrow> string \<Rightarrow> json \<Rightarrow> string \<Rightarrow> string option \<Rightarrow> path
    \<Rightarrow> string \<Rightarrow> string \<Rightarrow> path \<Rightarrow> world \<Rightarrow> (exn + pydict) \<times> world" where
  "dispose_A e request_id quality format scene_name script_file out err video_file w =
     (let blob_name = ''videos/'' @ request_id @ ''/video_'' @ request_id @ ''.'' @ format;
          uploaded =
            (if has_storage_client e
             then (case upload_to_gcs e video_file blob_name w of
                     (Inl x, w1) \<Rightarrow> (Inl x, w1)
                   | (Inr url, w1) \<Rightarrow> (Inr (Some url), w1))
             else (Inr None, w))
      in case uploaded of
           (Inl x, w1) \<Rightarrow> (Inl x, w1)
         | (Inr gcs_url, w1) \<Rightarrow>
             (case fs_read video_file (files w1) of
                None \<Rightarrow> (Inl (Error (no_such_file video_file)), w1)
              | Some content \<Rightarrow>
                  (let file_size = length content in
                   case unlink_missing_ok e script_file w1 of
                     (Some message, w2) \<Rightarrow> (Inl (Error message), w2)
                   | (None, w2) \<Rightarrow>
                       (let result =
                              [(''success'', JBool True),
                               (''request_id'', JStr request_id),
                               (''video_file'', JStr video_file),
                               (''gcs_url'', json_of_option gcs_url),
                               (''blob_name'',
                                  if or_default gcs_url [] \<noteq> [] then JStr blob_name
                                  else JNull),
                               (''file_size'', JInt (int file_size)),
                               (''render_time'', JFloat (elapsed e)),
                               (''quality'', quality),
                               (''format'', JStr format),
                               (''scene_name'', json_of_option scene_name),
                               (''timestamp'', JStr (utcnow e)),
                               (''stdout'', JStr out),
                               (''stderr'', JStr err)]
                        in (Inr result, report_metrics e file_size True w2)))))"

text \<open>The \<^verbatim>\<open>try\<close> block of \<^verbatim>\<open>render_script\<close> (lines 166 to 260): either the result
  dictionary or the exception that leaves the block.\<close>

definition try_render_A :: "env \<Rightarrow> string \<Rightarrow> string \<Rightarrow> json \<Rightarrow> string \<Rightarrow> string
    \<Rightarrow> string option \<Rightarrow> world \<Rightarrow> (exn + pydict) \<times> world" where
  "try_render_A e script_content request_id quality quality_flag format scene_name w =
     (case run_and_locate e script_content request_id [''--quality'', quality_flag] format
             scene_name w of
        (Inl x, w1) \<Rightarrow> (Inl x, w1)
      | (Inr (out, err, video_file), w3) \<Rightarrow>
          dispose_A e request_id quality format scene_name (script_file_of request_id)
            out err video_file w3)"

text \<open>
  \<^verbatim>\<open>render_script\<close> (lines 130 to 290). The defaults and the look-up of the quality flag
  (lines 141 to 164) stand before the \<^verbatim>\<open>try\<close> statement: an exception there leaves
  \<^verbatim>\<open>render_script\<close> (\<open>Inl\<close>, with the text of the exception), and neither a handler nor
  the \<^verbatim>\<open>finally\<close> clause runs. Then come the \<^verbatim>\<open>try\<close> block, the two handlers, and the
  \<^verbatim>\<open>finally\<close> clause, which every path out of the \<^verbatim>\<open>try\<close> statement goes through.
\<close>

definition render_script_A :: "env \<Rightarrow> string \<Rightarrow> string \<Rightarrow> json \<Rightarrow> string option
    \<Rightarrow> string option \<Rightarrow> world \<Rightarrow> (string + pydict) \<times> world" where
  "render_script_A e script_content request_id quality0 format0 scene_name w =
     (let quality = py_or quality0 (default_quality e);
          format = or_default format0 (default_format e)
      in case quality_mapping_get quality of
           Inl message \<Rightarrow> (Inl message, w)
         | Inr quality_flag \<Rightarrow>
             (case try_render_A e script_content request_id quality quality_flag format
                     scene_name w of
                (Inr result, w1) \<Rightarrow> (Inr result, finally_cleanup e request_id w1)
              | (Inl Timeout, w1) \<Rightarrow>
                  (Inr (failure_result e
                          (''Rendering timeout after '' @ str_int (max_render_time e)
                             @ '' seconds'')
                          request_id),
                   finally_cleanup e request_id (report_metrics e 0 False w1))
              | (Inl (Error message), w1) \<Rightarrow>
                  (Inr (failure_result e (''Rendering failed: '' @ message) request_id),
                   finally_cleanup e request_id (report_metrics e 0 False w1))))"

section \<open>Variant B: rendering with direct return (\<^verbatim>\<open>cloud-render/render-com/app.py\<close>)\<close>

text \<open>RFC 4648 base64, which \<^verbatim>\<open>base64.b64encode\<close> computes. A \<^typ>\<open>char\<close> is one byte.\<close>

definition b64_alphabet :: string where
  "b64_alphabet = ''ABCDEFGHIJKLMNOPQRSTUVWXYZabcdefghijklmnopqrstuvwxyz0123456789+/''"

definition b64_char :: "nat \<Rightarrow> char" where
  "b64_char i = b64_alphabet ! i"

fun b64encode :: "string \<Rightarrow> string" where
  "b64encode [] = []"
| "b64encode [a] =
     (let n = of_char a * 65536
      in [b64_char (n div 262144), b64_char (n div 4096 mod 64), CHR ''='', CHR ''=''])"
| "b64encode [a, b] =
     (let n = of_char a * 65536 + of_char b * 256
      in [b64_char (n div 262144), b64_char (n div 4096 mod 64),
          b64_char (n div 64 mod 64), CHR ''=''])"
| "b64encode (a # b # c # rest) =
     (let n = of_char a * 65536 + of_char b * 256 + of_char c
      in [b64_char (n div 262144), b64_char (n div 4096 mod 64),
          b64_char (n div 64 mod 64), b64_char (n mod 64)] @ b64encode rest)"

text \<open>The decoder a client applies to the inline data: RFC 4648 on padded input, refusing
  every character outside the alphabet.\<close>

fun index_of :: "'a \<Rightarrow> 'a list \<Rightarrow> nat option" where
  "index_of x [] = None"
| "index_of x (y # ys) =
     (if x = y then Some 0 else map_option Suc (index_of x ys))"

definition b64_index :: "char \<Rightarrow> nat option" where
  "b64_index c = index_of c b64_alphabet"

fun b64decode :: "string \<Rightarrow> string option" where
  "b64decode [] = Some []"
| "b64decode (p # q # r # s # rest) =
     (if rest = [] \<and> r = CHR ''='' \<and> s = CHR ''=''
      then (case (b64_index p, b64_index q) of
              (Some i, Some j) \<Rightarrow> Some [char_of ((i * 64 + j) div 16)]
            | _ \<Rightarrow> None)
      else if rest = [] \<and> s = CHR ''=''
      then (case (b64_index p, b64_index q, b64_index r) of
              (Some i, Some j, Some k) \<Rightarrow>
                (let n = i * 4096 + j * 64 + k
                 in Some [char_of (n div 1024), char_of (n div 4 mod 256)])
            | _ \<Rightarrow> None)
      else (case (b64_index p, b64_index q, b64_index r, b64_index s) of
              (Some i, Some j, Some k, Some l) \<Rightarrow>
                (let n = i * 262144 + j * 4096 + k * 64 + l
                 in map_option
                      (\<lambda>bytes. [char_of (n div 65536), char_of (n div 256 mod 256),
                                 char_of (n mod 256)] @ bytes)
                      (b64decode rest))
            | _ \<Rightarrow> None))"
| "b64decode _ = None"

text \<open>The \<^verbatim>\<open>try\<close> block of variant B from the metrics on (lines 187 to 224).\<close>

definition dispose_B :: "env \<Rightarrow> string \<Rightarrow> json \<Rightarrow> string \<Rightarrow> string option \<Rightarrow> bool \<Rightarrow> path
    \<Rightarrow> string \<Rightarrow> string \<Rightarrow> path \<Rightarrow> world \<Rightarrow> (exn + pydict) \<times> world" where
  "dispose_B e request_id quality format scene_name return_base64 script_file out err
       video_file w =
     (case fs_read video_file (files w) of
        None \<Rightarrow> (Inl (Error (no_such_file video_file)), w)
      | Some content \<Rightarrow>
          (let file_size = length content;
               result =
                 [(''success'', JBool True),
                  (''request_id'', JStr request_id),
                  (''video_file_path'', JStr video_file),
                  (''file_size'', JInt (int file_size)),
                  (''render_time'', JFloat (elapsed e)),
                  (''quality'', quality),
                  (''format'', JStr format),
                  (''scene_name'', json_of_option scene_name),
                  (''timestamp'', JStr (utcnow e)),
                  (''stdout'', JStr out),
                  (''stderr'', JStr err)];
               encoded =
                 (if return_base64
                  then (case fs_read video_file (files w) of
                          None \<Rightarrow> Inl (Error (no_such_file video_file))
                        | Some video_data \<Rightarrow>
                            Inr (result @
                                 [(''video_base64'', JStr (b64encode video_data)),
                                  (''video_size_mb'',
                                     JFloat (real (length video_data) / (1024 * 1024)))]))
                  else Inr result)
           in case encoded of
                Inl x \<Rightarrow> (Inl x, w)
              | Inr result \<Rightarrow>
                  (case unlink_missing_ok e script_file w of
                     (Some message, w1) \<Rightarrow> (Inl (Error message), w1)
                   | (None, w1) \<Rightarrow> (Inr result, w1))))"

definition try_render_B :: "env \<Rightarrow> string \<Rightarrow> string \<Rightarrow> json \<Rightarrow> string
    \<Rightarrow> string option \<Rightarrow> bool \<Rightarrow> world \<Rightarrow> (exn + pydict) \<times> world" where
  "try_render_B e script_content request_id quality format scene_name return_base64 w =
     (case run_and_locate e script_content request_id [''--'' @ format_value e quality] format
             scene_name w of
        (Inl x, w1) \<Rightarrow> (Inl x, w1)
      | (Inr (out, err, video_file), w3) \<Rightarrow>
          dispose_B e request_id quality format scene_name return_base64
            (script_file_of request_id) out err video_file w3)"

text \<open>
  \<^verbatim>\<open>render_script\<close> of variant B (lines 110 to 252). Nothing before its \<^verbatim>\<open>try\<close> statement
  can raise.
\<close>

definition render_script_B :: "env \<Rightarrow> string \<Rightarrow> string \<Rightarrow> json \<Rightarrow> string option
    \<Rightarrow> string option \<Rightarrow> bool \<Rightarrow> world \<Rightarrow> pydict \<times> world" where
  "render_script_B e script_content request_id quality0 format0 scene_name return_base64 w =
     (let quality = py_or quality0 (default_quality e);
          format = or_default format0 (default_format e)
      in case try_render_B e script_content request_id quality format scene_name
                return_base64 w of
           (Inr result, w1) \<Rightarrow> (result, finally_cleanup e request_id w1)
         | (Inl Timeout, w1) \<Rightarrow>
             (failure_result e
                (''Rendering timeout after '' @ str_int (max_render_time e) @ '' seconds'')
                request_id,
              finally_cleanup e request_id w1)
         | (Inl (Error message), w1) \<Rightarrow>
             (failure_result e (''Rendering failed: '' @ message) request_id,
              finally_cleanup e request_id w1))"

section \<open>The HTTP handlers\<close>

text \<open>
  What \<^verbatim>\<open>request.get_json()\<close> hands to the handler: it raises (the framework refuses
  the body), or returns a falsy value that is not a dictionary (\<^verbatim>\<open>None\<close> for a missing
  body, an empty list or string, zero, \<^verbatim>\<open>false\<close>), a truthy value of another Python type
  than \<^verbatim>\<open>dict\<close>, or a dictionary. Of a dictionary the handler reads five keys; each is
  absent, \<^verbatim>\<open>null\<close>, or holds a value: any JSON value for \<^verbatim>\<open>quality\<close>, which reaches
  the code before the \<^verbatim>\<open>try\<close> statement of variant A, and a value of the type the
  interface documents for the other four.
\<close>

datatype 'a field = Absent | Null | Value 'a

record request_json =
  script_field :: "string field"
  quality_field :: "json field"
  format_field :: "string field"
  scene_name_field :: "string field"
  return_base64_field :: "bool field"
  other_keys :: bool

datatype get_json_result =
    Raised string
  | FalsyValue
  | NonObject string
  | Object request_json

text \<open>\<^verbatim>\<open>not data\<close> on a dictionary: it has no key.\<close>

definition dict_is_empty :: "request_json \<Rightarrow> bool" where
  "dict_is_empty data \<longleftrightarrow>
     script_field data = Absent \<and> quality_field data = Absent \<and> format_field data = Absent
     \<and> scene_name_field data = Absent \<and> return_base64_field data = Absent
     \<and> \<not> other_keys data"

text \<open>\<^verbatim>\<open>data.get(key)\<close> and \<^verbatim>\<open>data.get(key, default)\<close>\<close>

definition get :: "'a field \<Rightarrow> 'a option" where
  "get f = (case f of Absent \<Rightarrow> None | Null \<Rightarrow> None | Value v \<Rightarrow> Some v)"

definition get_default :: "'a field \<Rightarrow> 'a \<Rightarrow> 'a option" where
  "get_default f d = (case f of Absent \<Rightarrow> Some d | Null \<Rightarrow> None | Value v \<Rightarrow> Some v)"

definition get_quality :: "json field \<Rightarrow> string \<Rightarrow> json" where
  "get_quality f d = (case f of Absent \<Rightarrow> JStr d | Null \<Rightarrow> JNull | Value v \<Rightarrow> v)"

text \<open>The body of the handler's own \<^verbatim>\<open>except Exception\<close> branch.\<close>

definition internal_error :: "env \<Rightarrow> string \<Rightarrow> pydict" where
  "internal_error e message =
     [(''success'', JBool False),
      (''error'', JStr (''Internal server error: '' @ message)),
      (''timestamp'', JStr (utcnow e))]"

definition no_attribute_get :: "string \<Rightarrow> string" where
  "no_attribute_get type_name =
     [CHR 0x27] @ type_name @ [CHR 0x27] @ '' object has no attribute '' @
     [CHR 0x27] @ ''get'' @ [CHR 0x27]"

text \<open>\<^verbatim>\<open>render_video\<close> of variant A (lines 375 to 424): status code and JSON body.\<close>

definition render_video_A :: "env \<Rightarrow> get_json_result \<Rightarrow> world \<Rightarrow> (nat \<times> pydict) \<times> world" where
  "render_video_A e parsed w =
     (let request_id = uuid4 e (uuid_count w);
          w0 = w\<lparr>uuid_count := Suc (uuid_count w)\<rparr>
      in case parsed of
           Raised message \<Rightarrow> ((500, internal_error e message), w0)
         | FalsyValue \<Rightarrow> ((400, [(''error'', JStr ''No JSON data provided'')]), w0)
         | NonObject type_name \<Rightarrow> ((500, internal_error e (no_attribute_get type_name)), w0)
         | Object data \<Rightarrow>
             if dict_is_empty data
             then ((400, [(''error'', JStr ''No JSON data provided'')]), w0)
             else
               (case get (script_field data) of
                  None \<Rightarrow> ((400, [(''error'', JStr ''No script content provided'')]), w0)
                | Some script_content \<Rightarrow>
                    if script_content = []
                    then ((400, [(''error'', JStr ''No script content provided'')]), w0)
                    else
                      (let quality = get_quality (quality_field data) (default_quality e);
                           format = get_default (format_field data) (default_format e);
                           scene_name = get (scene_name_field data)
                       in case render_script_A e script_content request_id quality format
                                 scene_name w0 of
                            (Inl message, w1) \<Rightarrow> ((500, internal_error e message), w1)
                          | (Inr result, w1) \<Rightarrow>
                              if map_of result ''success'' = Some (JBool True)
                              then ((200, result), w1)
                              else ((500, result), w1))))"

text \<open>\<^verbatim>\<open>render_video\<close> of variant B (lines 268 to 320).\<close>

definition render_video_B :: "env \<Rightarrow> get_json_result \<Rightarrow> world \<Rightarrow> (nat \<times> pydict) \<times> world" where
  "render_video_B e parsed w =
     (let request_id = uuid4 e (uuid_count w);
          w0 = w\<lparr>uuid_count := Suc (uuid_count w)\<rparr>
      in case parsed of
           Raised message \<Rightarrow> ((500, internal_error e message), w0)
         | FalsyValue \<Rightarrow> ((400, [(''error'', JStr ''No JSON data provided'')]), w0)
         | NonObject type_name \<Rightarrow> ((500, internal_error e (no_attribute_get type_name)), w0)
         | Object data \<Rightarrow>
             if dict_is_empty data
             then ((400, [(''error'', JStr ''No JSON data provided'')]), w0)
             else
               (case get (script_field data) of
                  None \<Rightarrow> ((400, [(''error'', JStr ''No script content provided'')]), w0)
                | Some script_content \<Rightarrow>
                    if script_content = []
                    then ((400, [(''error'', JStr ''No script content provided'')]), w0)
                    else
                      (let quality = get_quality (quality_field data) (default_quality e);
                           format = get_default (format_field data) (default_format e);
                           scene_name = get (scene_name_field data);
                           return_base64 =
                             (case get_default (return_base64_field data) False of
                                None \<Rightarrow> False | Some flag \<Rightarrow> flag)
                       in case render_script_B e script_content request_id quality format
                                 scene_name return_base64 w0 of
                            (result, w1) \<Rightarrow>
                              if map_of result ''success'' = Some (JBool True)
                              then ((200, result), w1)
                              else ((500, result), w1))))"

text \<open>
  \<^verbatim>\<open>get_render_status\<close> of variant B (lines 347 to 376). The pattern is the constant
  \<^verbatim>\<open>'*.mp4'\<close>; the \<^verbatim>\<open>except\<close> branch answers a file that vanished between the search and
  \<^verbatim>\<open>stat\<close>.
\<close>

definition get_render_status_B :: "env \<Rightarrow> string \<Rightarrow> world \<Rightarrow> nat \<times> pydict" where
  "get_render_status_B e request_id w =
     (let render_output_dir = render_output_dir_of request_id
      in case rglob (fnmatch e) render_output_dir ''*.mp4'' (files w) of
           video_file # others \<Rightarrow>
             (case fs_read video_file (files w) of
                Some content \<Rightarrow>
                  (200, [(''request_id'', JStr request_id),
                         (''status'', JStr ''completed''),
                         (''file_size'', JInt (int (length content))),
                         (''download_url'', JStr (''/download/'' @ request_id))])
              | None \<Rightarrow>
                  (500, [(''request_id'', JStr request_id),
                         (''status'', JStr ''error''),
                         (''error'', JStr (no_such_file video_file))]))
         | [] \<Rightarrow>
             (200, [(''request_id'', JStr request_id),
                    (''status'', JStr ''not_found''),
                    (''message'', JStr ''Video file not found'')]))"

section \<open>A stub of the outside world\<close>

text \<open>
  A rendering tool that exits with code 0 and leaves one file with the given extension
  below the media directory of the command, and an outside world around it in which
  nothing fails: the defaults of the configuration, both cloud clients present.
\<close>

definition stub_tool :: "string \<Rightarrow> string list \<Rightarrow> fs \<Rightarrow> run_outcome" where
  "stub_tool ext cmd files_now =
     CompletedProcess 0 ''done'' []
       (fs_write (cmd ! 5 @ ''/videos/'' @ cmd ! 3 @ ''.'' @ ext) ''VIDEO'' files_now)"

definition stub_env :: env where
  "stub_env =
     \<lparr>default_quality = ''medium_quality'',
      default_format = ''mp4'',
      max_render_time = 3600,
      bucket_name = ''manim-next-videos'',
      has_storage_client = True,
      has_monitoring_client = True,
      uuid4 = (\<lambda>n. ''req'' @ str_nat n),
      utcnow = ''2024-01-01T00:00:00'',
      elapsed = 2,
      fnmatch = fnmatch_literal,
      manim = stub_tool ''mp4'',
      py_str = (\<lambda>v. ''?''),
      write_fault = None,
      mkdir_fault = None,
      upload_fault = None,
      unlink_fault = None,
      metrics_fault = None\<rparr>"

definition empty_world :: world where
  "empty_world =
     \<lparr>files = [], launched = [], blobs = [], unlinked = [], metrics = [], uuid_count = 0\<rparr>"

definition good_script :: string where
  "good_script = ''from manim import *; class A(Scene): pass''"

text \<open>A well-formed request body that asks for the defaults.\<close>

definition stub_request :: request_json where
  "stub_request =
     \<lparr>script_field = Value good_script, quality_field = Absent, format_field = Absent,
      scene_name_field = Absent, return_base64_field = Absent, other_keys = False\<rparr>"

section \<open>Properties of the validation\<close>

lemma str_in_iff: "str_in needle hay \<longleftrightarrow> (\<exists>pre post. hay = pre @ needle @ post)"
proof (induction hay)
  case Nil
  show ?case by auto
next
  case (Cons c cs)
  show ?case
  proof
    assume "str_in needle (c # cs)"
    then consider "prefix needle (c # cs)" | "str_in needle cs" by auto
    then show "\<exists>pre post. c # cs = pre @ needle @ post"
    proof cases
      case 1
      then obtain post where "c # cs = needle @ post" by (auto simp: prefix_def)
      then have "c # cs = [] @ needle @ post" by simp
      then show ?thesis by blast
    next
      case 2
      with Cons.IH obtain pre post where "cs = pre @ needle @ post" by blast
      then have "c # cs = (c # pre) @ needle @ post" by simp
      then show ?thesis by blast
    qed
  next
    assume "\<exists>pre post. c # cs = pre @ needle @ post"
    then obtain pre post where eq: "c # cs = pre @ needle @ post" by blast
    show "str_in needle (c # cs)"
    proof (cases pre)
      case Nil
      with eq have "prefix needle (c # cs)" by (simp add: prefix_def)
      then show ?thesis by simp
    next
      case (Cons p ps)
      with eq have "cs = ps @ needle @ post" by simp
      with Cons.IH have "str_in needle cs" by blast
      then show ?thesis by simp
    qed
  qed
qed

lemma first_dangerous_None:
  "first_dangerous ds s = None \<longleftrightarrow> (\<forall>d \<in> set ds. \<not> str_in d s)"
  by (induction ds) auto

lemma first_dangerous_Some:
  "first_dangerous ds s = Some d \<longleftrightarrow>
     (\<exists>i < length ds. ds ! i = d \<and> str_in d s \<and> (\<forall>j < i. \<not> str_in (ds ! j) s))"
proof (induction ds)
  case Nil
  show ?case by simp
next
  case (Cons a ds)
  show ?case
  proof (cases "str_in a s")
    case True
    have "(\<exists>i < length (a # ds). (a # ds) ! i = d \<and> str_in d s
             \<and> (\<forall>j < i. \<not> str_in ((a # ds) ! j) s)) \<longleftrightarrow> a = d"
    proof
      assume "\<exists>i < length (a # ds). (a # ds) ! i = d \<and> str_in d s
                \<and> (\<forall>j < i. \<not> str_in ((a # ds) ! j) s)"
      then obtain i where i: "(a # ds) ! i = d" "\<forall>j < i. \<not> str_in ((a # ds) ! j) s"
        by blast
      have "i = 0"
      proof (rule ccontr)
        assume "i \<noteq> 0"
        then have "0 < i" by simp
        with i(2) have "\<not> str_in ((a # ds) ! 0) s" by blast
        with True show False by simp
      qed
      with i(1) show "a = d" by simp
    next
      assume "a = d"
      with True have "(a # ds) ! 0 = d \<and> str_in d s
          \<and> (\<forall>j < 0. \<not> str_in ((a # ds) ! j) s)" by simp
      then show "\<exists>i < length (a # ds). (a # ds) ! i = d \<and> str_in d s
                \<and> (\<forall>j < i. \<not> str_in ((a # ds) ! j) s)" by (intro exI[of _ 0]) simp
    qed
    with True show ?thesis by simp
  next
    case False
    have "(\<exists>i < length (a # ds). (a # ds) ! i = d \<and> str_in d s
             \<and> (\<forall>j < i. \<not> str_in ((a # ds) ! j) s))
          \<longleftrightarrow> (\<exists>i < length ds. ds ! i = d \<and> str_in d s \<and> (\<forall>j < i. \<not> str_in (ds ! j) s))"
      (is "?L \<longleftrightarrow> ?R")
    proof
      assume ?L
      then obtain i where i: "i < length (a # ds)" "(a # ds) ! i = d" "str_in d s"
        "\<forall>j < i. \<not> str_in ((a # ds) ! j) s" by blast
      from i(2,3) False have "i \<noteq> 0" by (cases i) auto
      then obtain k where k: "i = Suc k" by (cases i) auto
      have "\<forall>j < k. \<not> str_in (ds ! j) s"
      proof (intro allI impI)
        fix j assume "j < k"
        then have "Suc j < i" using k by simp
        with i(4) have "\<not> str_in ((a # ds) ! Suc j) s" by blast
        then show "\<not> str_in (ds ! j) s" by simp
      qed
      with i k show ?R by auto
    next
      assume ?R
      then obtain k where k: "k < length ds" "ds ! k = d" "str_in d s"
        "\<forall>j < k. \<not> str_in (ds ! j) s" by blast
      have "\<forall>j < Suc k. \<not> str_in ((a # ds) ! j) s"
      proof (intro allI impI)
        fix j assume "j < Suc k"
        then show "\<not> str_in ((a # ds) ! j) s"
          using False k(4) by (cases j) auto
      qed
      with k show ?L by (intro exI[of _ "Suc k"]) simp
    qed
    with False Cons.IH show ?thesis by simp
  qed
qed

lemma validate_script_dangerous:
  "first_dangerous dangerous_imports s = Some d \<Longrightarrow>
     validate_script s = (False, ''Dangerous function/import detected: '' @ d)"
  by (simp add: validate_script_def)

text \<open>
  Claim C10. A script that contains an entry of the denylist is refused, and the message
  names the first entry of the list, in the list's order, that occurs in the script,
  however many occur and whatever the script imports or declares: the scan of the denylist
  comes before the import check and the Scene check.
\<close>

theorem validate_script_names_first_dangerous:
  assumes "d \<in> set dangerous_imports" and "str_in d script_content"
  shows "\<exists>i < length dangerous_imports.
           str_in (dangerous_imports ! i) script_content
           \<and> (\<forall>j < i. \<not> str_in (dangerous_imports ! j) script_content)
           \<and> validate_script script_content
               = (False, ''Dangerous function/import detected: '' @ dangerous_imports ! i)"
proof -
  from assms have "first_dangerous dangerous_imports script_content \<noteq> None"
    by (auto simp: first_dangerous_None)
  then obtain x where x: "first_dangerous dangerous_imports script_content = Some x"
    by blast
  then obtain i where i: "i < length dangerous_imports" "dangerous_imports ! i = x"
      "str_in x script_content" "\<forall>j < i. \<not> str_in (dangerous_imports ! j) script_content"
    unfolding first_dangerous_Some by blast
  from x have "validate_script script_content
      = (False, ''Dangerous function/import detected: '' @ x)"
    by (rule validate_script_dangerous)
  with i show ?thesis by blast
qed

theorem validate_script_names_first_dangerous_witness:
  "''eval'' \<in> set dangerous_imports
   \<and> str_in ''eval'' ''import os.system; eval(x)''
   \<and> validate_script ''import os.system; eval(x)''
       = (False, ''Dangerous function/import detected: os.system'')"
proof -
  let ?s = "''import os.system; eval(x)''"
  have a: "''eval'' \<in> set dangerous_imports" by (simp add: dangerous_imports_def)
  have b: "str_in ''eval'' ?s" by simp
  from validate_script_names_first_dangerous [OF a b]
  obtain i where i: "str_in (dangerous_imports ! i) ?s"
      "\<forall>j < i. \<not> str_in (dangerous_imports ! j) ?s"
      "validate_script ?s
         = (False, ''Dangerous function/import detected: '' @ dangerous_imports ! i)"
    by blast
  have one: "str_in (dangerous_imports ! 1) ?s" by (simp add: dangerous_imports_def)
  have zero: "\<not> str_in (dangerous_imports ! 0) ?s" by (simp add: dangerous_imports_def)
  from i(2) one have "\<not> 1 < i" by blast
  moreover from i(1) zero have "i \<noteq> 0" by (intro notI) simp
  ultimately have "i = 1" by simp
  with i(3) a b show ?thesis by (simp add: dangerous_imports_def)
qed

text \<open>With two entries present the earlier one of the list is named, not the one that
  comes first in the script.\<close>

lemma validate_script_two_dangerous:
  "validate_script ''eval(x); import os.system''
     = (False, ''Dangerous function/import detected: os.system'')"
  by (simp add: validate_script_def dangerous_imports_def)

text \<open>
  Claim C3, as the code has it. A script that passes the denylist and the import check is
  accepted when it contains both \<^verbatim>\<open>class\<close> and \<^verbatim>\<open>Scene\<close>, and refused with the Scene
  message when it lacks at least one of the two: the source tests
  \<^verbatim>\<open>'class' not in script_content or 'Scene' not in script_content\<close>.
\<close>

theorem scene_check_rejects_unless_both:
  assumes "\<forall>d \<in> set dangerous_imports. \<not> str_in d script_content"
    and "str_in ''from manim import'' script_content \<or> str_in ''import manim'' script_content"
  shows "validate_script script_content =
           (if str_in ''class'' script_content \<and> str_in ''Scene'' script_content
            then (True, ''Script validation passed'')
            else (False, ''Script must contain a Scene class''))"
proof -
  from assms(1) have "first_dangerous dangerous_imports script_content = None"
    by (simp add: first_dangerous_None)
  with assms(2) show ?thesis by (auto simp: validate_script_def)
qed

theorem scene_check_rejects_unless_both_witness:
  "first_dangerous dangerous_imports ''from manim import *; class A(Scene)'' = None
   \<and> str_in ''from manim import'' ''from manim import *; class A(Scene)''
   \<and> validate_script ''from manim import *; class A(Scene)''
       = (True, ''Script validation passed'')"
proof -
  let ?s = "''from manim import *; class A(Scene)''"
  have n: "first_dangerous dangerous_imports ?s = None"
    by (simp add: dangerous_imports_def)
  then have a: "\<forall>d \<in> set dangerous_imports. \<not> str_in d ?s"
    by (simp only: first_dangerous_None)
  have b: "str_in ''from manim import'' ?s \<or> str_in ''import manim'' ?s"
    by simp
  from scene_check_rejects_unless_both [OF a b] n show ?thesis by simp
qed

text \<open>
  Claim C3, as stated, fails: this script passes the denylist and the import check and
  contains \<^verbatim>\<open>class\<close>, one of the two substrings, and is refused by the Scene check.
\<close>

theorem scene_check_counterexample:
  "first_dangerous dangerous_imports ''import manim; class A'' = None
   \<and> str_in ''import manim'' ''import manim; class A''
   \<and> str_in ''class'' ''import manim; class A''
   \<and> validate_script ''import manim; class A'' = (False, ''Script must contain a Scene class'')"
  by (simp add: validate_script_def dangerous_imports_def)



section \<open>Files and effects of \<^verbatim>\<open>render_script\<close>\<close>

lemma fs_read_unlink_same [simp]: "fs_read p (fs_unlink p fs) = None"
  by (induction fs) (auto simp: fs_read_def fs_unlink_def)

lemma fs_unlink_idem [simp]: "fs_unlink p (fs_unlink p fs) = fs_unlink p fs"
  by (induction fs) (auto simp: fs_unlink_def)

lemma fs_read_unlink_other: "p \<noteq> q \<Longrightarrow> fs_read p (fs_unlink q fs) = fs_read p fs"
  by (induction fs) (auto simp: fs_read_def fs_unlink_def)

lemma fs_read_member: "p \<in> fst ` set fs \<Longrightarrow> \<exists>c. fs_read p fs = Some c"
  unfolding fs_read_def by (metis domD dom_map_of_conv_image_fst)

lemma rglob_member:
  "p \<in> set (rglob m d pat fs) \<Longrightarrow> prefix (d @ ''/'') p \<and> p \<in> fst ` set fs"
  by (auto simp: rglob_def)

lemma fs_unlink_write [simp]: "fs_unlink p (fs_write p c fs) = fs_unlink p fs"
proof (cases "p \<in> fst ` set fs")
  case True
  have "filter (\<lambda>(q, content). q \<noteq> p)
          (map (\<lambda>(q, old). if q = p then (q, c) else (q, old)) xs)
        = filter (\<lambda>(q, content). q \<noteq> p) xs" for xs :: fs
    by (induction xs) auto
  with True show ?thesis by (simp add: fs_unlink_def fs_write_def)
next
  case False
  then have "filter (\<lambda>(q, content). q \<noteq> p) fs = fs"
    by (induction fs) auto
  with False show ?thesis by (simp add: fs_unlink_def fs_write_def)
qed

lemma unlink_missing_ok_simps [simp]:
  "fst (unlink_missing_ok e p w) = unlink_fault e"
  "files (snd (unlink_missing_ok e p w))
     = (if unlink_fault e = None then fs_unlink p (files w) else files w)"
  "launched (snd (unlink_missing_ok e p w)) = launched w"
  "blobs (snd (unlink_missing_ok e p w)) = blobs w"
  "unlinked (snd (unlink_missing_ok e p w)) = unlinked w @ [p]"
  "metrics (snd (unlink_missing_ok e p w)) = metrics w"
  "uuid_count (snd (unlink_missing_ok e p w)) = uuid_count w"
  by (simp_all add: unlink_missing_ok_def split: option.splits)

lemma finally_cleanup_eq:
  "finally_cleanup e rid w = snd (unlink_missing_ok e (script_file_of rid) w)"
  by (simp add: finally_cleanup_def script_file_of_def split: prod.splits)

lemma finally_cleanup_simps [simp]:
  "files (finally_cleanup e rid w)
     = (if unlink_fault e = None then fs_unlink (script_file_of rid) (files w) else files w)"
  "launched (finally_cleanup e rid w) = launched w"
  "blobs (finally_cleanup e rid w) = blobs w"
  "unlinked (finally_cleanup e rid w) = unlinked w @ [script_file_of rid]"
  "metrics (finally_cleanup e rid w) = metrics w"
  "uuid_count (finally_cleanup e rid w) = uuid_count w"
  by (simp_all add: finally_cleanup_eq)

lemma report_metrics_simps [simp]:
  "files (report_metrics e n b w) = files w"
  "launched (report_metrics e n b w) = launched w"
  "blobs (report_metrics e n b w) = blobs w"
  "unlinked (report_metrics e n b w) = unlinked w"
  "uuid_count (report_metrics e n b w) = uuid_count w"
  by (simp_all add: report_metrics_def split: option.splits)

lemma script_file_not_in_output:
  "prefix (render_output_dir_of request_id @ ''/'') p \<Longrightarrow> p \<noteq> script_file_of request_id"
  by (auto simp: render_output_dir_of_def script_file_of_def OUTPUT_DIR_def TEMP_DIR_def)

text \<open>
  What the first part of the \<^verbatim>\<open>try\<close> block leaves behind: the files as they were when
  nothing was written, with the script written when the directory could not be made or
  the tool not be started, and as the tool left them when it ran; and the command in the
  log exactly when the call of \<^verbatim>\<open>subprocess.run\<close> was reached.
\<close>

lemma run_and_locate_world:
  fixes e s rid qa f sn w
  defines "cmd \<equiv> build_cmd (script_file_of rid) rid (render_output_dir_of rid) qa f sn"
    and "written \<equiv> fs_write (script_file_of rid) s (files w)"
  shows "snd (run_and_locate e s rid qa f sn w) =
     w\<lparr>files :=
          (if \<not> fst (validate_script s) \<or> write_fault e \<noteq> None then files w
           else if mkdir_fault e \<noteq> None then written
           else case files_left_by (manim e cmd written) of
                  None \<Rightarrow> written | Some files_left \<Rightarrow> files_left),
       launched :=
          (if fst (validate_script s) \<and> write_fault e = None \<and> mkdir_fault e = None
           then launched w @ [cmd] else launched w)\<rparr>"
  by (auto simp: run_and_locate_def Let_def cmd_def written_def
      split: prod.splits option.splits run_outcome.splits list.splits)

lemma run_and_locate_keeps:
  assumes "run_and_locate e s rid qa f sn w = (r, w')"
  shows "unlinked w' = unlinked w" and "blobs w' = blobs w" and "metrics w' = metrics w"
    and "uuid_count w' = uuid_count w"
  using run_and_locate_world [of e s rid qa f sn w] assms by simp_all

lemma run_and_locate_found:
  assumes "run_and_locate e s rid qa f sn w = (Inr (out, err, vf), w')"
  shows "\<exists>others. rglob (fnmatch e) (render_output_dir_of rid) (''*.'' @ f) (files w')
            = vf # others"
  using assms
  by (auto simp: run_and_locate_def Let_def
      split: prod.splits if_splits option.splits run_outcome.splits list.splits)

lemma located_file:
  assumes "run_and_locate e s rid qa f sn w = (Inr (out, err, vf), w')"
  shows "prefix (render_output_dir_of rid @ ''/'') vf" and "\<exists>c. fs_read vf (files w') = Some c"
    and "vf \<noteq> script_file_of rid"
proof -
  from run_and_locate_found [OF assms]
  have "vf \<in> set (rglob (fnmatch e) (render_output_dir_of rid) (''*.'' @ f) (files w'))"
    by auto
  from rglob_member [OF this]
  have m: "prefix (render_output_dir_of rid @ ''/'') vf" "vf \<in> fst ` set (files w')"
    by blast+
  from m(1) show "prefix (render_output_dir_of rid @ ''/'') vf" .
  from m(2) show "\<exists>c. fs_read vf (files w') = Some c" by (rule fs_read_member)
  from m(1) show "vf \<noteq> script_file_of rid" by (rule script_file_not_in_output)
qed

text \<open>The exception, or the file found, for each way the first part can go.\<close>

lemma run_and_locate_invalid:
  "\<not> fst (validate_script s) \<Longrightarrow>
   fst (run_and_locate e s rid qa f sn w)
     = Inl (Error (''Script validation failed: '' @ snd (validate_script s)))"
  by (auto simp: run_and_locate_def split: prod.splits)

lemma run_and_locate_write_fault:
  "fst (validate_script s) \<Longrightarrow> write_fault e = Some m \<Longrightarrow>
   fst (run_and_locate e s rid qa f sn w) = Inl (Error m)"
  by (auto simp: run_and_locate_def Let_def split: prod.splits)

lemma run_and_locate_mkdir_fault:
  "fst (validate_script s) \<Longrightarrow> write_fault e = None \<Longrightarrow> mkdir_fault e = Some m \<Longrightarrow>
   fst (run_and_locate e s rid qa f sn w) = Inl (Error m)"
  by (auto simp: run_and_locate_def Let_def split: prod.splits)

lemma run_and_locate_ran:
  fixes e s rid qa f sn w
  defines "cmd \<equiv> build_cmd (script_file_of rid) rid (render_output_dir_of rid) qa f sn"
    and "written \<equiv> fs_write (script_file_of rid) s (files w)"
  assumes "fst (validate_script s)" and "write_fault e = None" and "mkdir_fault e = None"
  shows "fst (run_and_locate e s rid qa f sn w) =
     (case manim e cmd written of
        TimeoutExpired files_left \<Rightarrow> Inl Timeout
      | LaunchError message \<Rightarrow> Inl (Error message)
      | CompletedProcess returncode out err files_left \<Rightarrow>
          if returncode \<noteq> 0 then Inl (Error (''Manim rendering failed: '' @ err))
          else (case rglob (fnmatch e) (render_output_dir_of rid) (''*.'' @ f) files_left of
                  [] \<Rightarrow> Inl (Error ''No video file found after rendering'')
                | video_file # others \<Rightarrow> Inr (out, err, video_file)))"
  using assms(3-5)
  by (auto simp: run_and_locate_def Let_def cmd_def written_def
      split: prod.splits run_outcome.splits list.splits)


text \<open>The second part of the \<^verbatim>\<open>try\<close> block, for a file that can be read.\<close>

lemma dispose_A_cases:
  assumes "fs_read vf (files w) = Some content"
  obtains (upload_failed) m where
      "has_storage_client e" "upload_fault e = Some m"
      "dispose_A e rid q f sn sf out err vf w = (Inl (Error m), w)"
  | (unlink_failed) m w1 where
      "unlink_fault e = Some m"
      "dispose_A e rid q f sn sf out err vf w = (Inl (Error m), w1)"
      "files w1 = files w" "launched w1 = launched w" "unlinked w1 = unlinked w @ [sf]"
  | (finished) res w1 where
      "unlink_fault e = None"
      "dispose_A e rid q f sn sf out err vf w = (Inr res, w1)"
      "files w1 = fs_unlink sf (files w)" "launched w1 = launched w"
      "unlinked w1 = unlinked w @ [sf]"
      "map_of res ''success'' = Some (JBool True)"
      "map_of res ''video_file'' = Some (JStr vf)"
      "map_of res ''file_size'' = Some (JInt (int (length content)))"
proof (cases "has_storage_client e \<and> upload_fault e \<noteq> None")
  case True
  then obtain m where "has_storage_client e" "upload_fault e = Some m" by auto
  then show ?thesis
    using upload_failed by (simp add: dispose_A_def upload_to_gcs_def)
next
  case False
  show ?thesis
  proof (cases "unlink_fault e")
    case None
    with False assms
    have "\<exists>res w1. dispose_A e rid q f sn sf out err vf w = (Inr res, w1)
        \<and> files w1 = fs_unlink sf (files w) \<and> launched w1 = launched w
        \<and> unlinked w1 = unlinked w @ [sf]
        \<and> map_of res ''success'' = Some (JBool True)
        \<and> map_of res ''video_file'' = Some (JStr vf)
        \<and> map_of res ''file_size'' = Some (JInt (int (length content)))"
      by (auto simp: dispose_A_def upload_to_gcs_def unlink_missing_ok_def Let_def)
    with None finished show ?thesis by blast
  next
    case (Some m)
    with False assms
    have "\<exists>w1. dispose_A e rid q f sn sf out err vf w = (Inl (Error m), w1)
        \<and> files w1 = files w \<and> launched w1 = launched w
        \<and> unlinked w1 = unlinked w @ [sf]"
      by (auto simp: dispose_A_def upload_to_gcs_def unlink_missing_ok_def Let_def)
    with Some unlink_failed show ?thesis by blast
  qed
qed

lemma dispose_B_cases:
  assumes "fs_read vf (files w) = Some content"
  obtains (unlink_failed) m w1 where
      "unlink_fault e = Some m"
      "dispose_B e rid q f sn b64 sf out err vf w = (Inl (Error m), w1)"
      "files w1 = files w" "launched w1 = launched w" "unlinked w1 = unlinked w @ [sf]"
  | (finished) res w1 where
      "unlink_fault e = None"
      "dispose_B e rid q f sn b64 sf out err vf w = (Inr res, w1)"
      "files w1 = fs_unlink sf (files w)" "launched w1 = launched w"
      "unlinked w1 = unlinked w @ [sf]"
      "map_of res ''success'' = Some (JBool True)"
      "map_of res ''video_file_path'' = Some (JStr vf)"
      "map_of res ''file_size'' = Some (JInt (int (length content)))"
      "b64 \<Longrightarrow> map_of res ''video_base64'' = Some (JStr (b64encode content))"
proof (cases "unlink_fault e")
  case None
  with assms
  have "\<exists>res w1. dispose_B e rid q f sn b64 sf out err vf w = (Inr res, w1)
      \<and> files w1 = fs_unlink sf (files w) \<and> launched w1 = launched w
      \<and> unlinked w1 = unlinked w @ [sf]
      \<and> map_of res ''success'' = Some (JBool True)
      \<and> map_of res ''video_file_path'' = Some (JStr vf)
      \<and> map_of res ''file_size'' = Some (JInt (int (length content)))
      \<and> (b64 \<longrightarrow> map_of res ''video_base64'' = Some (JStr (b64encode content)))"
    by (auto simp: dispose_B_def unlink_missing_ok_def Let_def)
  with None finished show ?thesis by blast
next
  case (Some m)
  with assms
  have "\<exists>w1. dispose_B e rid q f sn b64 sf out err vf w = (Inl (Error m), w1)
      \<and> files w1 = files w \<and> launched w1 = launched w
      \<and> unlinked w1 = unlinked w @ [sf]"
    by (auto simp: dispose_B_def unlink_missing_ok_def Let_def)
  with Some unlink_failed show ?thesis by blast
qed


text \<open>
  The ways through \<^verbatim>\<open>render_script\<close>: the first part of the \<^verbatim>\<open>try\<close> block ends with a
  timeout or with another exception; or it finds a file, and then the unlink of the
  \<^verbatim>\<open>try\<close> block raises or the result is returned. (A failing upload is one of the other
  exceptions of variant A.) The \<^verbatim>\<open>finally\<close> clause follows in every case.
\<close>

lemma render_script_B_cases:
  fixes e s rid q f sn b64 w
  defines "located \<equiv> run_and_locate e s rid
                        [''--'' @ format_value e (py_or q (default_quality e))]
                        (or_default f (default_format e)) sn w"
  obtains (timed_out)
      "fst located = Inl Timeout"
      "render_script_B e s rid q f sn b64 w =
         (failure_result e
            (''Rendering timeout after '' @ str_int (max_render_time e) @ '' seconds'') rid,
          finally_cleanup e rid (snd located))"
  | (errored) m where
      "fst located = Inl (Error m)"
      "render_script_B e s rid q f sn b64 w =
         (failure_result e (''Rendering failed: '' @ m) rid,
          finally_cleanup e rid (snd located))"
  | (unlink_failed) out err vf m w' where
      "fst located = Inr (out, err, vf)" "unlink_fault e = Some m"
      "render_script_B e s rid q f sn b64 w =
         (failure_result e (''Rendering failed: '' @ m) rid, w')"
      "files w' = files (snd located)" "launched w' = launched (snd located)"
      "unlinked w' = unlinked w @ [script_file_of rid, script_file_of rid]"
  | (rendered) out err vf res w' content where
      "fst located = Inr (out, err, vf)" "unlink_fault e = None"
      "render_script_B e s rid q f sn b64 w = (res, w')"
      "files w' = fs_unlink (script_file_of rid) (files (snd located))"
      "launched w' = launched (snd located)"
      "unlinked w' = unlinked w @ [script_file_of rid, script_file_of rid]"
      "prefix (render_output_dir_of rid @ ''/'') vf"
      "fs_read vf (files (snd located)) = Some content"
      "map_of res ''success'' = Some (JBool True)"
      "map_of res ''video_file_path'' = Some (JStr vf)"
      "map_of res ''file_size'' = Some (JInt (int (length content)))"
      "b64 \<Longrightarrow> map_of res ''video_base64'' = Some (JStr (b64encode content))"
proof -
  obtain r0 w0 where l: "located = (r0, w0)" by (cases located) auto
  note l' = l [unfolded located_def]
  show thesis
  proof (cases r0)
    case (Inl x)
    show thesis
    proof (cases x)
      case Timeout
      with Inl l l' timed_out show thesis
        by (simp add: render_script_B_def try_render_B_def Let_def)
    next
      case (Error m)
      with Inl l l' errored [of m] show thesis
        by (simp add: render_script_B_def try_render_B_def Let_def)
    qed
  next
    case (Inr t)
    then obtain out err vf where t: "r0 = Inr (out, err, vf)" by (cases t) auto
    from l' t have rl: "run_and_locate e s rid
                        [''--'' @ format_value e (py_or q (default_quality e))]
                        (or_default f (default_format e)) sn w = (Inr (out, err, vf), w0)"
      by simp
    from located_file(2) [OF rl] obtain content where c: "fs_read vf (files w0) = Some content"
      by blast
    note keep = run_and_locate_keeps(1) [OF rl]
    let ?d = "dispose_B e rid (py_or q (default_quality e)) (or_default f (default_format e))
                sn b64 (script_file_of rid) out err vf w0"
    have tr: "try_render_B e s rid (py_or q (default_quality e))
                 (or_default f (default_format e)) sn b64 w = ?d"
      using rl by (simp add: try_render_B_def)
    from c show thesis
    proof (cases rule: dispose_B_cases [where e = e and rid = rid
          and q = "py_or q (default_quality e)" and f = "or_default f (default_format e)"
          and sn = sn and ?b64.0 = b64 and sf = "script_file_of rid" and out = out
          and err = err])
      case (unlink_failed m w1)
      let ?w' = "finally_cleanup e rid w1"
      have "render_script_B e s rid q f sn b64 w =
         (failure_result e (''Rendering failed: '' @ m) rid, ?w')"
        using tr unlink_failed(2) by (simp add: render_script_B_def Let_def)
      moreover have "files ?w' = files (snd located)" "launched ?w' = launched (snd located)"
        "unlinked ?w' = unlinked w @ [script_file_of rid, script_file_of rid]"
        using unlink_failed l keep by simp_all
      ultimately show thesis
        using \<open>unlink_fault e = Some m\<close> t l
        by (intro that(3) [of out err vf m ?w']) simp_all
    next
      case (finished res w1)
      let ?w' = "finally_cleanup e rid w1"
      have "render_script_B e s rid q f sn b64 w = (res, ?w')"
        using tr finished(2) by (simp add: render_script_B_def Let_def)
      moreover have "files ?w' = fs_unlink (script_file_of rid) (files (snd located))"
        "launched ?w' = launched (snd located)"
        "unlinked ?w' = unlinked w @ [script_file_of rid, script_file_of rid]"
        using finished l keep by simp_all
      ultimately show thesis
        using finished(1,6-9) t l c located_file(1) [OF rl]
        by (intro that(4) [of out err vf res ?w' content]) simp_all
    qed
  qed
qed


lemma render_script_A_cases:
  fixes e s rid q f sn w
  defines "located \<equiv> \<lambda>flag. run_and_locate e s rid [''--quality'', flag]
                                (or_default f (default_format e)) sn w"
  obtains (raised) m where
      "quality_mapping_get (py_or q (default_quality e)) = Inl m"
      "render_script_A e s rid q f sn w = (Inl m, w)"
  | (timed_out) flag where
      "quality_mapping_get (py_or q (default_quality e)) = Inr flag"
      "fst (located flag) = Inl Timeout"
      "render_script_A e s rid q f sn w =
         (Inr (failure_result e
                 (''Rendering timeout after '' @ str_int (max_render_time e) @ '' seconds'')
                 rid),
          finally_cleanup e rid (report_metrics e 0 False (snd (located flag))))"
  | (errored) flag m where
      "quality_mapping_get (py_or q (default_quality e)) = Inr flag"
      "fst (located flag) = Inl (Error m)"
      "render_script_A e s rid q f sn w =
         (Inr (failure_result e (''Rendering failed: '' @ m) rid),
          finally_cleanup e rid (report_metrics e 0 False (snd (located flag))))"
  | (upload_failed) flag out err vf m where
      "quality_mapping_get (py_or q (default_quality e)) = Inr flag"
      "fst (located flag) = Inr (out, err, vf)"
      "has_storage_client e" "upload_fault e = Some m"
      "render_script_A e s rid q f sn w =
         (Inr (failure_result e (''Rendering failed: '' @ m) rid),
          finally_cleanup e rid (report_metrics e 0 False (snd (located flag))))"
  | (unlink_failed) flag out err vf m w' where
      "quality_mapping_get (py_or q (default_quality e)) = Inr flag"
      "fst (located flag) = Inr (out, err, vf)" "unlink_fault e = Some m"
      "render_script_A e s rid q f sn w =
         (Inr (failure_result e (''Rendering failed: '' @ m) rid), w')"
      "files w' = files (snd (located flag))" "launched w' = launched (snd (located flag))"
      "unlinked w' = unlinked w @ [script_file_of rid, script_file_of rid]"
  | (rendered) flag out err vf res w' content where
      "quality_mapping_get (py_or q (default_quality e)) = Inr flag"
      "fst (located flag) = Inr (out, err, vf)" "unlink_fault e = None"
      "render_script_A e s rid q f sn w = (Inr res, w')"
      "files w' = fs_unlink (script_file_of rid) (files (snd (located flag)))"
      "launched w' = launched (snd (located flag))"
      "unlinked w' = unlinked w @ [script_file_of rid, script_file_of rid]"
      "prefix (render_output_dir_of rid @ ''/'') vf"
      "fs_read vf (files (snd (located flag))) = Some content"
      "map_of res ''success'' = Some (JBool True)"
      "map_of res ''video_file'' = Some (JStr vf)"
      "map_of res ''file_size'' = Some (JInt (int (length content)))"
proof (cases "quality_mapping_get (py_or q (default_quality e))")
  case (Inl m)
  with raised [of m] show thesis by (simp add: render_script_A_def Let_def)
next
  case (Inr flag)
  note flag = Inr
  obtain r0 w0 where l: "located flag = (r0, w0)" by (cases "located flag") auto
  note l' = l [unfolded located_def]
  show thesis
  proof (cases r0)
    case (Inl x)
    show thesis
    proof (cases x)
      case Timeout
      with Inl l l' flag timed_out [of flag] show thesis
        by (simp add: render_script_A_def try_render_A_def Let_def)
    next
      case (Error m)
      with Inl l l' flag errored [of flag m] show thesis
        by (simp add: render_script_A_def try_render_A_def Let_def)
    qed
  next
    case (Inr t)
    then obtain out err vf where t: "r0 = Inr (out, err, vf)" by (cases t) auto
    from l' t have rl: "run_and_locate e s rid [''--quality'', flag]
                          (or_default f (default_format e)) sn w = (Inr (out, err, vf), w0)"
      by simp
    from located_file(2) [OF rl] obtain content where c: "fs_read vf (files w0) = Some content"
      by blast
    note keep = run_and_locate_keeps(1) [OF rl]
    let ?d = "dispose_A e rid (py_or q (default_quality e)) (or_default f (default_format e))
                sn (script_file_of rid) out err vf w0"
    have tr: "try_render_A e s rid (py_or q (default_quality e)) flag
                 (or_default f (default_format e)) sn w = ?d"
      using rl by (simp add: try_render_A_def)
    from c show thesis
    proof (cases rule: dispose_A_cases [where e = e and rid = rid
          and q = "py_or q (default_quality e)" and f = "or_default f (default_format e)"
          and sn = sn and sf = "script_file_of rid" and out = out and err = err])
      case (upload_failed m)
      have "render_script_A e s rid q f sn w =
         (Inr (failure_result e (''Rendering failed: '' @ m) rid),
          finally_cleanup e rid (report_metrics e 0 False (snd (located flag))))"
        using tr upload_failed(3) flag l by (simp add: render_script_A_def Let_def)
      with upload_failed(1,2) flag t l show thesis
        by (intro that(4) [of flag out err vf m]) simp_all
    next
      case (unlink_failed m w1)
      let ?w' = "finally_cleanup e rid (report_metrics e 0 False w1)"
      have "render_script_A e s rid q f sn w =
         (Inr (failure_result e (''Rendering failed: '' @ m) rid), ?w')"
        using tr unlink_failed(2) flag by (simp add: render_script_A_def Let_def)
      moreover have "files ?w' = files (snd (located flag))"
        "launched ?w' = launched (snd (located flag))"
        "unlinked ?w' = unlinked w @ [script_file_of rid, script_file_of rid]"
        using unlink_failed l keep by simp_all
      ultimately show thesis
        using \<open>unlink_fault e = Some m\<close> t l flag
        by (intro that(5) [of flag out err vf m ?w']) simp_all
    next
      case (finished res w1)
      let ?w' = "finally_cleanup e rid w1"
      have "render_script_A e s rid q f sn w = (Inr res, ?w')"
        using tr finished(2) flag by (simp add: render_script_A_def Let_def)
      moreover have "files ?w' = fs_unlink (script_file_of rid) (files (snd (located flag)))"
        "launched ?w' = launched (snd (located flag))"
        "unlinked ?w' = unlinked w @ [script_file_of rid, script_file_of rid]"
        using finished l keep by simp_all
      ultimately show thesis
        using finished(1,6-8) t l c located_file(1) [OF rl] flag
        by (intro that(6) [of flag out err vf res ?w' content]) simp_all
    qed
  qed
qed



lemma run_and_locate_launched:
  "launched (snd (run_and_locate e s rid qa f sn w)) =
     (if fst (validate_script s) \<and> write_fault e = None \<and> mkdir_fault e = None
      then launched w @
             [build_cmd (script_file_of rid) rid (render_output_dir_of rid) qa f sn]
      else launched w)"
  by (simp add: run_and_locate_world)

lemma failure_result_keys [simp]:
  "map_of (failure_result e msg rid) ''video_file'' = None"
  "map_of (failure_result e msg rid) ''video_file_path'' = None"
  "map_of (failure_result e msg rid) ''video_base64'' = None"
  "map_of (failure_result e msg rid) ''success'' = Some (JBool False)"
  by (simp_all add: failure_result_def)

lemma render_script_B_effects:
  fixes e s rid q f sn b64 w
  defines "sf \<equiv> script_file_of rid"
    and "located \<equiv> run_and_locate e s rid
                        [''--'' @ format_value e (py_or q (default_quality e))]
                        (or_default f (default_format e)) sn w"
    and "R \<equiv> render_script_B e s rid q f sn b64 w"
  shows "files (snd R) = (if unlink_fault e = None then fs_unlink sf (files (snd located))
                          else files (snd located))"
    and "launched (snd R) = launched (snd located)"
    and "\<exists>n. unlinked (snd R) = unlinked w @ replicate n sf"
    and "\<forall>vf. map_of (fst R) ''video_file_path'' = Some (JStr vf) \<longrightarrow>
           prefix (render_output_dir_of rid @ ''/'') vf
           \<and> (\<exists>content. fs_read vf (files (snd R)) = Some content
                 \<and> map_of (fst R) ''file_size'' = Some (JInt (int (length content))))"
proof -
  have "files (snd R) = (if unlink_fault e = None then fs_unlink sf (files (snd located))
                          else files (snd located))
    \<and> launched (snd R) = launched (snd located)
    \<and> (\<exists>n. unlinked (snd R) = unlinked w @ replicate n sf)
    \<and> (\<forall>vf. map_of (fst R) ''video_file_path'' = Some (JStr vf) \<longrightarrow>
           prefix (render_output_dir_of rid @ ''/'') vf
           \<and> (\<exists>content. fs_read vf (files (snd R)) = Some content
                 \<and> map_of (fst R) ''file_size'' = Some (JInt (int (length content)))))"
  proof (cases rule: render_script_B_cases [of e s rid q f sn w b64])
    case timed_out
    have "unlinked (snd located) = unlinked w"
      by (rule run_and_locate_keeps(1) [of e s rid _ _ sn w "fst located"])
         (simp add: located_def)
    then have "unlinked (snd R) = unlinked w @ replicate 1 sf"
      using timed_out(2) by (simp add: R_def sf_def located_def)
    then have "\<exists>n. unlinked (snd R) = unlinked w @ replicate n sf" by blast
    with timed_out(2) show ?thesis by (simp add: R_def sf_def located_def)
  next
    case (errored m)
    have "unlinked (snd located) = unlinked w"
      by (rule run_and_locate_keeps(1) [of e s rid _ _ sn w "fst located"])
         (simp add: located_def)
    then have "unlinked (snd R) = unlinked w @ replicate 1 sf"
      using errored(2) by (simp add: R_def sf_def located_def)
    then have "\<exists>n. unlinked (snd R) = unlinked w @ replicate n sf" by blast
    with errored(2) show ?thesis by (simp add: R_def sf_def located_def)
  next
    case (unlink_failed out err vf m w')
    have "unlinked (snd R) = unlinked w @ replicate 2 sf"
      using unlink_failed(3,6) by (simp add: R_def sf_def numeral_2_eq_2)
    then have "\<exists>n. unlinked (snd R) = unlinked w @ replicate n sf" by blast
    with unlink_failed show ?thesis by (simp add: R_def sf_def located_def)
  next
    case (rendered out err vf res w' content)
    have "unlinked (snd R) = unlinked w @ replicate 2 sf"
      using rendered(3,6) by (simp add: R_def sf_def numeral_2_eq_2)
    then have u: "\<exists>n. unlinked (snd R) = unlinked w @ replicate n sf" by blast
    from rendered(7) have "vf \<noteq> script_file_of rid" by (rule script_file_not_in_output)
    with rendered(4,8) have "fs_read vf (files w') = Some content"
      by (simp add: fs_read_unlink_other)
    with rendered u show ?thesis by (simp add: R_def sf_def located_def)
  qed
  then show "files (snd R) = (if unlink_fault e = None then fs_unlink sf (files (snd located))
                          else files (snd located))"
    and "launched (snd R) = launched (snd located)"
    and "\<exists>n. unlinked (snd R) = unlinked w @ replicate n sf"
    and "\<forall>vf. map_of (fst R) ''video_file_path'' = Some (JStr vf) \<longrightarrow>
           prefix (render_output_dir_of rid @ ''/'') vf
           \<and> (\<exists>content. fs_read vf (files (snd R)) = Some content
                 \<and> map_of (fst R) ''file_size'' = Some (JInt (int (length content))))"
    by blast+
qed


lemma render_script_A_effects:
  fixes e s rid q f sn w flag
  assumes flag: "quality_mapping_get (py_or q (default_quality e)) = Inr flag"
  defines "sf \<equiv> script_file_of rid"
    and "located \<equiv> run_and_locate e s rid [''--quality'', flag]
                        (or_default f (default_format e)) sn w"
    and "R \<equiv> render_script_A e s rid q f sn w"
  shows "\<exists>result. fst R = Inr result"
    and "files (snd R) = (if unlink_fault e = None then fs_unlink sf (files (snd located))
                          else files (snd located))"
    and "launched (snd R) = launched (snd located)"
    and "\<exists>n. unlinked (snd R) = unlinked w @ replicate n sf"
    and "\<forall>result vf. fst R = Inr result \<and> map_of result ''video_file'' = Some (JStr vf) \<longrightarrow>
           prefix (render_output_dir_of rid @ ''/'') vf
           \<and> (\<exists>content. fs_read vf (files (snd R)) = Some content
                 \<and> map_of result ''file_size'' = Some (JInt (int (length content))))"
proof -
  have keep: "unlinked (snd located) = unlinked w"
    by (rule run_and_locate_keeps(1) [of e s rid _ _ sn w "fst located"])
       (simp add: located_def)
  have "(\<exists>result. fst R = Inr result)
    \<and> files (snd R) = (if unlink_fault e = None then fs_unlink sf (files (snd located))
                          else files (snd located))
    \<and> launched (snd R) = launched (snd located)
    \<and> (\<exists>n. unlinked (snd R) = unlinked w @ replicate n sf)
    \<and> (\<forall>result vf. fst R = Inr result \<and> map_of result ''video_file'' = Some (JStr vf) \<longrightarrow>
           prefix (render_output_dir_of rid @ ''/'') vf
           \<and> (\<exists>content. fs_read vf (files (snd R)) = Some content
                 \<and> map_of result ''file_size'' = Some (JInt (int (length content)))))"
  proof (cases rule: render_script_A_cases [where e = e and s = s and rid = rid and q = q
        and f = f and sn = sn and w = w])
    case (raised m)
    with flag show ?thesis by simp
  next
    case (timed_out flag')
    with flag have [simp]: "flag' = flag" by simp
    have "unlinked (snd R) = unlinked w @ replicate 1 sf"
      using timed_out(3) keep by (simp add: R_def sf_def located_def)
    then have "\<exists>n. unlinked (snd R) = unlinked w @ replicate n sf" by blast
    with timed_out(3) show ?thesis by (simp add: R_def sf_def located_def)
  next
    case (errored flag' m)
    with flag have [simp]: "flag' = flag" by simp
    have "unlinked (snd R) = unlinked w @ replicate 1 sf"
      using errored(3) keep by (simp add: R_def sf_def located_def)
    then have "\<exists>n. unlinked (snd R) = unlinked w @ replicate n sf" by blast
    with errored(3) show ?thesis by (simp add: R_def sf_def located_def)
  next
    case (upload_failed flag' out err vf m)
    with flag have [simp]: "flag' = flag" by simp
    have "unlinked (snd R) = unlinked w @ replicate 1 sf"
      using upload_failed(5) keep by (simp add: R_def sf_def located_def)
    then have "\<exists>n. unlinked (snd R) = unlinked w @ replicate n sf" by blast
    with upload_failed(5) show ?thesis by (simp add: R_def sf_def located_def)
  next
    case (unlink_failed flag' out err vf m w')
    with flag have [simp]: "flag' = flag" by simp
    have "unlinked (snd R) = unlinked w @ replicate 2 sf"
      using unlink_failed(4,7) by (simp add: R_def sf_def numeral_2_eq_2)
    then have "\<exists>n. unlinked (snd R) = unlinked w @ replicate n sf" by blast
    with unlink_failed(3-6) show ?thesis by (simp add: R_def sf_def located_def)
  next
    case (rendered flag' out err vf res w' content)
    with flag have [simp]: "flag' = flag" by simp
    have "unlinked (snd R) = unlinked w @ replicate 2 sf"
      using rendered(4,7) by (simp add: R_def sf_def numeral_2_eq_2)
    then have u: "\<exists>n. unlinked (snd R) = unlinked w @ replicate n sf" by blast
    from rendered(8) have "vf \<noteq> script_file_of rid" by (rule script_file_not_in_output)
    with rendered(5,9) have "fs_read vf (files w') = Some content"
      by (simp add: fs_read_unlink_other located_def)
    with rendered(3-8,10-12) u show ?thesis by (simp add: R_def sf_def located_def)
  qed
  then show "\<exists>result. fst R = Inr result"
    and "files (snd R) = (if unlink_fault e = None then fs_unlink sf (files (snd located))
                          else files (snd located))"
    and "launched (snd R) = launched (snd located)"
    and "\<exists>n. unlinked (snd R) = unlinked w @ replicate n sf"
    and "\<forall>result vf. fst R = Inr result \<and> map_of result ''video_file'' = Some (JStr vf) \<longrightarrow>
           prefix (render_output_dir_of rid @ ''/'') vf
           \<and> (\<exists>content. fs_read vf (files (snd R)) = Some content
                 \<and> map_of result ''file_size'' = Some (JInt (int (length content))))"
    by blast+
qed

lemma render_script_A_raises:
  "quality_mapping_get (py_or q (default_quality e)) = Inl m \<Longrightarrow>
   render_script_A e s rid q f sn w = (Inl m, w)"
  by (simp add: render_script_A_def Let_def)




section \<open>The stub world, evaluated\<close>

lemmas stub_defs = render_script_A_def render_script_B_def try_render_A_def try_render_B_def
  run_and_locate_def dispose_A_def dispose_B_def
  upload_to_gcs_def report_metrics_def unlink_missing_ok_def finally_cleanup_def
  failure_result_def py_or_def quality_mapping_get_def format_value_def unhashable_def
  script_file_of_def render_output_dir_of_def TEMP_DIR_def OUTPUT_DIR_def build_cmd_def
  stub_env_def stub_tool_def empty_world_def good_script_def validate_script_def
  dangerous_imports_def or_default_def quality_flag_of_def quality_mapping_def
  fs_write_def fs_read_def fs_unlink_def rglob_def basename_def fnmatch_literal_def
  json_of_option_def suffix_to_prefix Let_def


lemma stub_render_B:
  "render_script_B stub_env good_script ''r1'' JNull None None True empty_world =
     ([(''success'', JBool True),
       (''request_id'', JStr ''r1''),
       (''video_file_path'', JStr ''/app/output/r1/videos/video_r1.mp4''),
       (''file_size'', JInt 5),
       (''render_time'', JFloat 2),
       (''quality'', JStr ''medium_quality''),
       (''format'', JStr ''mp4''),
       (''scene_name'', JNull),
       (''timestamp'', JStr ''2024-01-01T00:00:00''),
       (''stdout'', JStr ''done''),
       (''stderr'', JStr []),
       (''video_base64'', JStr (b64encode ''VIDEO'')),
       (''video_size_mb'', JFloat (5 / (1024 * 1024)))],
      \<lparr>files = [(''/app/output/r1/videos/video_r1.mp4'', ''VIDEO'')],
       launched = [[''manim'', ''/app/temp/script_r1.py'', ''--output_file'', ''video_r1'',
                    ''--media_dir'', ''/app/output/r1'', ''--medium_quality'',
                    ''--format'', ''mp4'', ''--disable_caching'']],
       blobs = [],
       unlinked = [''/app/temp/script_r1.py'', ''/app/temp/script_r1.py''],
       metrics = [],
       uuid_count = 0\<rparr>)"
  by (simp add: stub_defs del: b64encode.simps)




section \<open>A script that contains \<^verbatim>\<open>eval\<close>\<close>

lemma py_or_json_of_option [simp]: "py_or (json_of_option q) d = JStr (or_default q d)"
  by (cases q) (simp_all add: py_or_def json_of_option_def or_default_def)

lemma quality_mapping_get_JStr [simp]: "quality_mapping_get (JStr name) = Inr (quality_flag_of name)"
  by (simp add: quality_mapping_get_def)

lemma format_value_JStr [simp]: "format_value e (JStr name) = name"
  by (simp add: format_value_def)


lemma run_and_locate_refuses:
  "\<not> fst (validate_script s) \<Longrightarrow>
   run_and_locate e s rid qa f sn w
     = (Inl (Error (''Script validation failed: '' @ snd (validate_script s))), w)"
  by (auto simp: run_and_locate_def split: prod.splits)

lemma render_script_A_invalid:
  assumes "\<not> fst (validate_script s)"
    and "quality_mapping_get (py_or q (default_quality e)) = Inr flag"
  shows "render_script_A e s rid q f sn w =
           (Inr (failure_result e
                   (''Rendering failed: Script validation failed: ''
                      @ snd (validate_script s)) rid),
            finally_cleanup e rid (report_metrics e 0 False w))"
  using assms(2)
  by (simp add: render_script_A_def try_render_A_def run_and_locate_refuses [OF assms(1)]
        Let_def)

lemma render_script_B_invalid:
  assumes "\<not> fst (validate_script s)"
  shows "render_script_B e s rid q f sn b64 w =
           (failure_result e
              (''Rendering failed: Script validation failed: '' @ snd (validate_script s)) rid,
            finally_cleanup e rid w)"
  by (simp add: render_script_B_def try_render_B_def run_and_locate_refuses [OF assms] Let_def)



section \<open>The command handed to the rendering tool\<close>

text \<open>
  Claim C9, as the code has it. When the command is launched (the validation passed, the
  script file and the output directory could be created), variant A passes
  \<^verbatim>\<open>--quality\<close> followed by the flag that \<^verbatim>\<open>quality_mapping\<close> gives the quality name,
  and variant B passes the quality name itself behind two dashes. The keys of the table
  are \<^verbatim>\<open>low_quality\<close>, \<^verbatim>\<open>medium_quality\<close>, \<^verbatim>\<open>high_quality\<close>, \<^verbatim>\<open>production_quality\<close> and
  \<^verbatim>\<open>4k_quality\<close>; every other name gives \<^verbatim>\<open>m\<close>. The quality name is the one supplied,
  or the configured default when none or the empty string is supplied.
\<close>

theorem quality_argument_of_the_command:
  assumes "fst (validate_script script_content)"
    and "write_fault e = None" and "mkdir_fault e = None"
  shows "launched (snd (render_script_A e script_content request_id (json_of_option quality)
                          format scene_name w))
         = launched w @
           [build_cmd (script_file_of request_id) request_id (render_output_dir_of request_id)
              [''--quality'', quality_flag_of (or_default quality (default_quality e))]
              (or_default format (default_format e)) scene_name]
       \<and> launched (snd (render_script_B e script_content request_id (json_of_option quality)
                          format scene_name return_base64 w))
         = launched w @
           [build_cmd (script_file_of request_id) request_id (render_output_dir_of request_id)
              [''--'' @ or_default quality (default_quality e)]
              (or_default format (default_format e)) scene_name]
       \<and> quality_flag_of name =
           (if name = ''low_quality'' then ''l''
            else if name = ''medium_quality'' then ''m''
            else if name = ''high_quality'' then ''h''
            else if name = ''production_quality'' then ''p''
            else if name = ''4k_quality'' then ''k''
            else ''m'')
       \<and> or_default (Some name) (default_quality e)
           = (if name = [] then default_quality e else name)
       \<and> or_default None (default_quality e) = default_quality e"
proof -
  have q: "quality_mapping_get (py_or (json_of_option quality) (default_quality e))
             = Inr (quality_flag_of (or_default quality (default_quality e)))" by simp
  note a = render_script_A_effects(3) [OF q, of script_content request_id format scene_name w]
  note b = render_script_B_effects(2) [of e script_content request_id "json_of_option quality"
      format scene_name return_base64 w]
  from a b assms show ?thesis
    by (simp add: run_and_locate_launched quality_flag_of_def quality_mapping_def
          or_default_def)
qed

text \<open>
  Claim C9, as stated, fails: the quality string \<^verbatim>\<open>low\<close> is not a key of the table, and
  variant A passes the flag \<^verbatim>\<open>m\<close> for it, not \<^verbatim>\<open>l\<close>.
\<close>

theorem quality_low_counterexample:
  "launched (snd (render_script_A stub_env good_script ''r1'' (JStr ''low'') None None
                    empty_world))
   = [[''manim'', ''/app/temp/script_r1.py'', ''--output_file'', ''video_r1'',
       ''--media_dir'', ''/app/output/r1'', ''--quality'', ''m'',
       ''--format'', ''mp4'', ''--disable_caching'']]"
  by (simp add: stub_defs)

theorem quality_argument_of_the_command_witness:
  "fst (validate_script good_script)
   \<and> launched (snd (render_script_A stub_env good_script ''r1''
                      (json_of_option (Some ''high_quality'')) None None empty_world))
     = [[''manim'', ''/app/temp/script_r1.py'', ''--output_file'', ''video_r1'',
         ''--media_dir'', ''/app/output/r1'', ''--quality'', ''h'',
         ''--format'', ''mp4'', ''--disable_caching'']]
   \<and> launched (snd (render_script_B stub_env good_script ''r1''
                      (json_of_option (Some ''high_quality'')) None None False empty_world))
     = [[''manim'', ''/app/temp/script_r1.py'', ''--output_file'', ''video_r1'',
         ''--media_dir'', ''/app/output/r1'', ''--high_quality'',
         ''--format'', ''mp4'', ''--disable_caching'']]"
proof -
  have v: "fst (validate_script good_script)"
    by (simp add: good_script_def validate_script_def dangerous_imports_def)
  have wf: "write_fault stub_env = None" and mf: "mkdir_fault stub_env = None"
    by (simp_all add: stub_env_def)
  from quality_argument_of_the_command [OF v wf mf, of "''r1''" "Some ''high_quality''" None
      None empty_world False "''high_quality''"] v
  show ?thesis
    by (simp add: stub_env_def empty_world_def or_default_def script_file_of_def
          render_output_dir_of_def TEMP_DIR_def OUTPUT_DIR_def build_cmd_def)
qed


section \<open>The responses of \<^verbatim>\<open>render_video\<close>\<close>

lemma render_script_B_timeout:
  assumes "fst (run_and_locate e s rid [''--'' @ format_value e (py_or q (default_quality e))]
                  (or_default f (default_format e)) sn w) = Inl Timeout"
  shows "fst (render_script_B e s rid q f sn b64 w) =
           failure_result e
             (''Rendering timeout after '' @ str_int (max_render_time e) @ '' seconds'') rid"
  using assms
  by (cases "run_and_locate e s rid [''--'' @ format_value e (py_or q (default_quality e))]
               (or_default f (default_format e)) sn w")
     (simp add: render_script_B_def try_render_B_def Let_def)

lemma render_script_B_error:
  assumes "fst (run_and_locate e s rid [''--'' @ format_value e (py_or q (default_quality e))]
                  (or_default f (default_format e)) sn w) = Inl (Error m)"
  shows "fst (render_script_B e s rid q f sn b64 w) =
           failure_result e (''Rendering failed: '' @ m) rid"
  using assms
  by (cases "run_and_locate e s rid [''--'' @ format_value e (py_or q (default_quality e))]
               (or_default f (default_format e)) sn w")
     (simp add: render_script_B_def try_render_B_def Let_def)

lemma render_script_A_timeout:
  assumes "quality_mapping_get (py_or q (default_quality e)) = Inr flag"
    and "fst (run_and_locate e s rid [''--quality'', flag]
                  (or_default f (default_format e)) sn w) = Inl Timeout"
  shows "fst (render_script_A e s rid q f sn w) =
           Inr (failure_result e
                  (''Rendering timeout after '' @ str_int (max_render_time e) @ '' seconds'')
                  rid)"
  using assms
  by (cases "run_and_locate e s rid [''--quality'', flag]
               (or_default f (default_format e)) sn w")
     (simp add: render_script_A_def try_render_A_def Let_def)

lemma render_script_A_error:
  assumes "quality_mapping_get (py_or q (default_quality e)) = Inr flag"
    and "fst (run_and_locate e s rid [''--quality'', flag]
                  (or_default f (default_format e)) sn w) = Inl (Error m)"
  shows "fst (render_script_A e s rid q f sn w) =
           Inr (failure_result e (''Rendering failed: '' @ m) rid)"
  using assms
  by (cases "run_and_locate e s rid [''--quality'', flag]
               (or_default f (default_format e)) sn w")
     (simp add: render_script_A_def try_render_A_def Let_def)

lemma render_script_A_upload_fault:
  assumes "has_storage_client e" and "upload_fault e = Some message"
    and "quality_mapping_get (py_or q (default_quality e)) = Inr flag"
    and "run_and_locate e s rid [''--quality'', flag]
           (or_default f (default_format e)) sn w = (Inr (out, err, vf), w3)"
  shows "render_script_A e s rid q f sn w =
           (Inr (failure_result e (''Rendering failed: '' @ message) rid),
            finally_cleanup e rid (report_metrics e 0 False w3))"
  using assms(3,4)
  by (simp add: render_script_A_def try_render_A_def Let_def dispose_A_def
        upload_to_gcs_def assms(1,2))

text \<open>The result of \<^verbatim>\<open>render_script\<close> is a success or the failure result.\<close>

lemma render_script_B_shape:
  "map_of (fst (render_script_B e s rid q f sn b64 w)) ''success'' = Some (JBool True)
   \<or> (\<exists>msg. fst (render_script_B e s rid q f sn b64 w) = failure_result e msg rid)"
  by (cases rule: render_script_B_cases [where e = e and s = s and rid = rid and q = q
        and f = f and sn = sn and w = w and ?b64.0 = b64]) auto

lemma render_script_A_shape:
  "(\<exists>m. quality_mapping_get (py_or q (default_quality e)) = Inl m
        \<and> render_script_A e s rid q f sn w = (Inl m, w))
   \<or> (\<exists>result. fst (render_script_A e s rid q f sn w) = Inr result
        \<and> (map_of result ''success'' = Some (JBool True)
             \<or> (\<exists>msg. result = failure_result e msg rid)))"
  by (cases rule: render_script_A_cases [where e = e and s = s and rid = rid and q = q
        and f = f and sn = sn and w = w]) auto

lemma render_video_A_renders:
  assumes "script_field data = Value s" and "s \<noteq> []"
  shows "render_video_A e (Object data) w =
     (case render_script_A e s (uuid4 e (uuid_count w))
             (get_quality (quality_field data) (default_quality e))
             (get_default (format_field data) (default_format e))
             (get (scene_name_field data))
             (w\<lparr>uuid_count := Suc (uuid_count w)\<rparr>) of
        (Inl message, w1) \<Rightarrow> ((500, internal_error e message), w1)
      | (Inr result, w1) \<Rightarrow>
          if map_of result ''success'' = Some (JBool True)
          then ((200, result), w1) else ((500, result), w1))"
  using assms by (simp add: render_video_A_def dict_is_empty_def get_def Let_def)

lemma render_video_B_renders:
  assumes "script_field data = Value s" and "s \<noteq> []"
  shows "render_video_B e (Object data) w =
     (case render_script_B e s (uuid4 e (uuid_count w))
             (get_quality (quality_field data) (default_quality e))
             (get_default (format_field data) (default_format e))
             (get (scene_name_field data))
             (case get_default (return_base64_field data) False of
                None \<Rightarrow> False | Some flag \<Rightarrow> flag)
             (w\<lparr>uuid_count := Suc (uuid_count w)\<rparr>) of
        (result, w1) \<Rightarrow>
          if map_of result ''success'' = Some (JBool True)
          then ((200, result), w1) else ((500, result), w1))"
  using assms by (simp add: render_video_B_def dict_is_empty_def get_def Let_def)

text \<open>
  Claim C1, as the code has it. \<^verbatim>\<open>_upload_to_gcs\<close> raises the storage client's exception
  again, and the call stands inside the \<^verbatim>\<open>try\<close> block of \<^verbatim>\<open>render_script\<close>, whose
  \<^verbatim>\<open>except Exception\<close> handler catches it. A render that reaches the upload (the quality
  flag was looked up, the validation passed, the tool exited with 0, a file was found)
  and whose upload fails returns the structured failure result with the four fields
  \<^verbatim>\<open>success\<close>, \<^verbatim>\<open>error\<close>, \<^verbatim>\<open>request_id\<close> and \<^verbatim>\<open>timestamp\<close>, and the handler sends it
  with status 500.
\<close>

theorem upload_failure_is_a_structured_failure:
  assumes "has_storage_client e" and "upload_fault e = Some message"
    and "script_field data = Value script_content" and "script_content \<noteq> []"
    and "request_id = uuid4 e (uuid_count w)"
    and "quality = get_quality (quality_field data) (default_quality e)"
    and "format = get_default (format_field data) (default_format e)"
    and "scene_name = get (scene_name_field data)"
    and "quality_mapping_get (py_or quality (default_quality e)) = Inr quality_flag"
    and "run_and_locate e script_content request_id [''--quality'', quality_flag]
           (or_default format (default_format e)) scene_name
           (w\<lparr>uuid_count := Suc (uuid_count w)\<rparr>) = (Inr (out, err, video_file), w3)"
  shows "fst (render_script_A e script_content request_id quality format scene_name
                (w\<lparr>uuid_count := Suc (uuid_count w)\<rparr>))
           = Inr [(''success'', JBool False),
                  (''error'', JStr (''Rendering failed: '' @ message)),
                  (''request_id'', JStr request_id),
                  (''timestamp'', JStr (utcnow e))]
       \<and> fst (render_video_A e (Object data) w)
           = (500, [(''success'', JBool False),
                    (''error'', JStr (''Rendering failed: '' @ message)),
                    (''request_id'', JStr request_id),
                    (''timestamp'', JStr (utcnow e))])"
proof -
  from render_script_A_upload_fault [OF assms(1,2,9,10)]
  have r: "render_script_A e script_content request_id quality format scene_name
             (w\<lparr>uuid_count := Suc (uuid_count w)\<rparr>) =
           (Inr (failure_result e (''Rendering failed: '' @ message) request_id),
            finally_cleanup e request_id (report_metrics e 0 False w3))" .
  from r assms(5-8) show ?thesis
    by (simp add: render_video_A_renders [OF assms(3,4)] failure_result_def)
qed

lemma str_nat_0 [simp]: "str_nat 0 = ''0''"
  by (simp add: str_nat.simps)

lemmas handler_defs = render_video_A_def render_video_B_def dict_is_empty_def get_def
  get_default_def get_quality_def internal_error_def no_attribute_get_def stub_request_def

text \<open>
  Claim C1, as stated, fails: with a storage client whose upload raises, the response to
  a well-formed request is the structured failure result, request identifier included,
  not the body of the handler's own \<^verbatim>\<open>except\<close> branch.
\<close>

theorem upload_failure_counterexample:
  "fst (render_video_A (stub_env\<lparr>upload_fault := Some ''boom''\<rparr>) (Object stub_request)
          empty_world)
   = (500, [(''success'', JBool False),
            (''error'', JStr ''Rendering failed: boom''),
            (''request_id'', JStr ''req0''),
            (''timestamp'', JStr ''2024-01-01T00:00:00'')])"
  by (simp add: handler_defs stub_defs)

theorem upload_failure_is_a_structured_failure_witness:
  "has_storage_client (stub_env\<lparr>upload_fault := Some ''boom''\<rparr>)
   \<and> upload_fault (stub_env\<lparr>upload_fault := Some ''boom''\<rparr>) = Some ''boom''
   \<and> fst (render_script_A (stub_env\<lparr>upload_fault := Some ''boom''\<rparr>) good_script ''req0''
            (JStr ''medium_quality'') (Some ''mp4'') None (empty_world\<lparr>uuid_count := 1\<rparr>))
       = Inr [(''success'', JBool False),
              (''error'', JStr ''Rendering failed: boom''),
              (''request_id'', JStr ''req0''),
              (''timestamp'', JStr ''2024-01-01T00:00:00'')]
   \<and> fst (render_video_A (stub_env\<lparr>upload_fault := Some ''boom''\<rparr>) (Object stub_request)
            empty_world)
       = (500, [(''success'', JBool False),
                (''error'', JStr ''Rendering failed: boom''),
                (''request_id'', JStr ''req0''),
                (''timestamp'', JStr ''2024-01-01T00:00:00'')])"
proof -
  let ?e = "stub_env\<lparr>upload_fault := Some ''boom''\<rparr>"
  have h1: "has_storage_client ?e" and h2: "upload_fault ?e = Some ''boom''"
    by (simp_all add: stub_env_def)
  have h3: "script_field stub_request = Value good_script" and h4: "good_script \<noteq> []"
    by (simp_all add: stub_request_def good_script_def)
  have h5: "''req0'' = uuid4 ?e (uuid_count empty_world)"
    by (simp add: stub_env_def empty_world_def)
  have h6: "JStr ''medium_quality'' = get_quality (quality_field stub_request) (default_quality ?e)"
    and h7: "Some ''mp4'' = get_default (format_field stub_request) (default_format ?e)"
    and h8: "None = get (scene_name_field stub_request)"
    by (simp_all add: stub_request_def stub_env_def get_default_def get_def get_quality_def)
  have h9: "quality_mapping_get (py_or (JStr ''medium_quality'') (default_quality ?e))
              = Inr ''m''"
    by (simp add: py_or_def quality_flag_of_def quality_mapping_def)
  have h10: "run_and_locate ?e good_script ''req0'' [''--quality'', ''m'']
           (or_default (Some ''mp4'') (default_format ?e)) None
           (empty_world\<lparr>uuid_count := Suc (uuid_count empty_world)\<rparr>)
         = (Inr (''done'', [], ''/app/output/req0/videos/video_req0.mp4''),
            \<lparr>files = [(''/app/temp/script_req0.py'', good_script),
                      (''/app/output/req0/videos/video_req0.mp4'', ''VIDEO'')],
             launched = [[''manim'', ''/app/temp/script_req0.py'', ''--output_file'',
                          ''video_req0'', ''--media_dir'', ''/app/output/req0'',
                          ''--quality'', ''m'', ''--format'', ''mp4'', ''--disable_caching'']],
             blobs = [], unlinked = [], metrics = [], uuid_count = 1\<rparr>)"
    by (simp add: stub_defs)
  from upload_failure_is_a_structured_failure [OF h1 h2 h3 h4 h5 h6 h7 h8 h9 h10] h1 h2
  show ?thesis by (simp add: stub_env_def empty_world_def)
qed


text \<open>The failure result of \<^verbatim>\<open>render_script\<close>, cause by cause.\<close>

lemma render_script_B_by_cause:
  fixes e s rid q f sn b64 w
  defines "qa \<equiv> [''--'' @ format_value e (py_or q (default_quality e))]"
  defines "cmd \<equiv> build_cmd (script_file_of rid) rid (render_output_dir_of rid) qa
                    (or_default f (default_format e)) sn"
    and "written \<equiv> fs_write (script_file_of rid) s (files w)"
    and "R \<equiv> fst (render_script_B e s rid q f sn b64 w)"
  shows "\<not> fst (validate_script s) \<Longrightarrow>
           R = failure_result e (''Rendering failed: Script validation failed: ''
                                   @ snd (validate_script s)) rid"
    and "fst (validate_script s) \<Longrightarrow> write_fault e = Some m \<Longrightarrow>
           R = failure_result e (''Rendering failed: '' @ m) rid"
    and "fst (validate_script s) \<Longrightarrow> write_fault e = None \<Longrightarrow> mkdir_fault e = Some m \<Longrightarrow>
           R = failure_result e (''Rendering failed: '' @ m) rid"
    and "fst (validate_script s) \<Longrightarrow> write_fault e = None \<Longrightarrow> mkdir_fault e = None \<Longrightarrow>
         manim e cmd written = TimeoutExpired fl \<Longrightarrow>
           R = failure_result e (''Rendering timeout after '' @ str_int (max_render_time e)
                                   @ '' seconds'') rid"
    and "fst (validate_script s) \<Longrightarrow> write_fault e = None \<Longrightarrow> mkdir_fault e = None \<Longrightarrow>
         manim e cmd written = LaunchError m \<Longrightarrow>
           R = failure_result e (''Rendering failed: '' @ m) rid"
    and "fst (validate_script s) \<Longrightarrow> write_fault e = None \<Longrightarrow> mkdir_fault e = None \<Longrightarrow>
         manim e cmd written = CompletedProcess rc out err fl \<Longrightarrow> rc \<noteq> 0 \<Longrightarrow>
           R = failure_result e (''Rendering failed: Manim rendering failed: '' @ err) rid"
    and "fst (validate_script s) \<Longrightarrow> write_fault e = None \<Longrightarrow> mkdir_fault e = None \<Longrightarrow>
         manim e cmd written = CompletedProcess 0 out err fl \<Longrightarrow>
         rglob (fnmatch e) (render_output_dir_of rid)
           (''*.'' @ or_default f (default_format e)) fl = [] \<Longrightarrow>
           R = failure_result e ''Rendering failed: No video file found after rendering'' rid"
proof -
  let ?l = "fst (run_and_locate e s rid qa (or_default f (default_format e)) sn w)"
  note err = render_script_B_error [of e s rid q f sn w _ b64, folded qa_def R_def]
  note tmo = render_script_B_timeout [of e s rid q f sn w b64, folded qa_def R_def]
  note ran = run_and_locate_ran [of s e rid qa "or_default f (default_format e)" sn w,
      folded cmd_def written_def]
  show "\<not> fst (validate_script s) \<Longrightarrow>
           R = failure_result e (''Rendering failed: Script validation failed: ''
                                   @ snd (validate_script s)) rid"
    by (simp add: R_def render_script_B_invalid)
  show "fst (validate_script s) \<Longrightarrow> write_fault e = Some m \<Longrightarrow>
           R = failure_result e (''Rendering failed: '' @ m) rid"
    by (rule err) (rule run_and_locate_write_fault)
  show "fst (validate_script s) \<Longrightarrow> write_fault e = None \<Longrightarrow> mkdir_fault e = Some m \<Longrightarrow>
           R = failure_result e (''Rendering failed: '' @ m) rid"
    by (rule err) (rule run_and_locate_mkdir_fault)
  show "fst (validate_script s) \<Longrightarrow> write_fault e = None \<Longrightarrow> mkdir_fault e = None \<Longrightarrow>
         manim e cmd written = TimeoutExpired fl \<Longrightarrow>
           R = failure_result e (''Rendering timeout after '' @ str_int (max_render_time e)
                                   @ '' seconds'') rid"
    by (rule tmo) (simp add: ran)
  show "fst (validate_script s) \<Longrightarrow> write_fault e = None \<Longrightarrow> mkdir_fault e = None \<Longrightarrow>
         manim e cmd written = LaunchError m \<Longrightarrow>
           R = failure_result e (''Rendering failed: '' @ m) rid"
    by (rule err) (simp add: ran)
  show "fst (validate_script s) \<Longrightarrow> write_fault e = None \<Longrightarrow> mkdir_fault e = None \<Longrightarrow>
         manim e cmd written = CompletedProcess rc out err fl \<Longrightarrow> rc \<noteq> 0 \<Longrightarrow>
           R = failure_result e (''Rendering failed: Manim rendering failed: '' @ err) rid"
    using err [of "''Manim rendering failed: '' @ err"] by (simp add: ran)
  show "fst (validate_script s) \<Longrightarrow> write_fault e = None \<Longrightarrow> mkdir_fault e = None \<Longrightarrow>
         manim e cmd written = CompletedProcess 0 out err fl \<Longrightarrow>
         rglob (fnmatch e) (render_output_dir_of rid)
           (''*.'' @ or_default f (default_format e)) fl = [] \<Longrightarrow>
           R = failure_result e ''Rendering failed: No video file found after rendering'' rid"
    using err [of "''No video file found after rendering''"] by (simp add: ran)
qed


lemma render_script_A_by_cause:
  fixes e s rid q f sn w flag
  assumes flag: "quality_mapping_get (py_or q (default_quality e)) = Inr flag"
  defines "cmd \<equiv> build_cmd (script_file_of rid) rid (render_output_dir_of rid)
                    [''--quality'', flag] (or_default f (default_format e)) sn"
    and "written \<equiv> fs_write (script_file_of rid) s (files w)"
    and "R \<equiv> fst (render_script_A e s rid q f sn w)"
  shows "\<not> fst (validate_script s) \<Longrightarrow>
           R = Inr (failure_result e (''Rendering failed: Script validation failed: ''
                                        @ snd (validate_script s)) rid)"
    and "fst (validate_script s) \<Longrightarrow> write_fault e = Some m \<Longrightarrow>
           R = Inr (failure_result e (''Rendering failed: '' @ m) rid)"
    and "fst (validate_script s) \<Longrightarrow> write_fault e = None \<Longrightarrow> mkdir_fault e = Some m \<Longrightarrow>
           R = Inr (failure_result e (''Rendering failed: '' @ m) rid)"
    and "fst (validate_script s) \<Longrightarrow> write_fault e = None \<Longrightarrow> mkdir_fault e = None \<Longrightarrow>
         manim e cmd written = TimeoutExpired fl \<Longrightarrow>
           R = Inr (failure_result e (''Rendering timeout after ''
                                        @ str_int (max_render_time e) @ '' seconds'') rid)"
    and "fst (validate_script s) \<Longrightarrow> write_fault e = None \<Longrightarrow> mkdir_fault e = None \<Longrightarrow>
         manim e cmd written = LaunchError m \<Longrightarrow>
           R = Inr (failure_result e (''Rendering failed: '' @ m) rid)"
    and "fst (validate_script s) \<Longrightarrow> write_fault e = None \<Longrightarrow> mkdir_fault e = None \<Longrightarrow>
         manim e cmd written = CompletedProcess rc out err fl \<Longrightarrow> rc \<noteq> 0 \<Longrightarrow>
           R = Inr (failure_result e
                      (''Rendering failed: Manim rendering failed: '' @ err) rid)"
    and "fst (validate_script s) \<Longrightarrow> write_fault e = None \<Longrightarrow> mkdir_fault e = None \<Longrightarrow>
         manim e cmd written = CompletedProcess 0 out err fl \<Longrightarrow>
         rglob (fnmatch e) (render_output_dir_of rid)
           (''*.'' @ or_default f (default_format e)) fl = [] \<Longrightarrow>
           R = Inr (failure_result e
                      ''Rendering failed: No video file found after rendering'' rid)"
proof -
  note err = render_script_A_error [OF flag, of s rid f sn w, folded R_def]
  note tmo = render_script_A_timeout [OF flag, of s rid f sn w, folded R_def]
  note ran = run_and_locate_ran [of s e rid "[''--quality'', flag]"
      "or_default f (default_format e)" sn w, folded cmd_def written_def]
  show "\<not> fst (validate_script s) \<Longrightarrow>
           R = Inr (failure_result e (''Rendering failed: Script validation failed: ''
                                        @ snd (validate_script s)) rid)"
    using flag by (simp add: R_def render_script_A_invalid)
  show "fst (validate_script s) \<Longrightarrow> write_fault e = Some m \<Longrightarrow>
           R = Inr (failure_result e (''Rendering failed: '' @ m) rid)"
    by (rule err) (rule run_and_locate_write_fault)
  show "fst (validate_script s) \<Longrightarrow> write_fault e = None \<Longrightarrow> mkdir_fault e = Some m \<Longrightarrow>
           R = Inr (failure_result e (''Rendering failed: '' @ m) rid)"
    by (rule err) (rule run_and_locate_mkdir_fault)
  show "fst (validate_script s) \<Longrightarrow> write_fault e = None \<Longrightarrow> mkdir_fault e = None \<Longrightarrow>
         manim e cmd written = TimeoutExpired fl \<Longrightarrow>
           R = Inr (failure_result e (''Rendering timeout after ''
                                        @ str_int (max_render_time e) @ '' seconds'') rid)"
    by (rule tmo) (simp add: ran)
  show "fst (validate_script s) \<Longrightarrow> write_fault e = None \<Longrightarrow> mkdir_fault e = None \<Longrightarrow>
         manim e cmd written = LaunchError m \<Longrightarrow>
           R = Inr (failure_result e (''Rendering failed: '' @ m) rid)"
    by (rule err) (simp add: ran)
  show "fst (validate_script s) \<Longrightarrow> write_fault e = None \<Longrightarrow> mkdir_fault e = None \<Longrightarrow>
         manim e cmd written = CompletedProcess rc out err fl \<Longrightarrow> rc \<noteq> 0 \<Longrightarrow>
           R = Inr (failure_result e
                      (''Rendering failed: Manim rendering failed: '' @ err) rid)"
    using err [of "''Manim rendering failed: '' @ err"] by (simp add: ran)
  show "fst (validate_script s) \<Longrightarrow> write_fault e = None \<Longrightarrow> mkdir_fault e = None \<Longrightarrow>
         manim e cmd written = CompletedProcess 0 out err fl \<Longrightarrow>
         rglob (fnmatch e) (render_output_dir_of rid)
           (''*.'' @ or_default f (default_format e)) fl = [] \<Longrightarrow>
           R = Inr (failure_result e
                      ''Rendering failed: No video file found after rendering'' rid)"
    using err [of "''No video file found after rendering''"] by (simp add: ran)
qed

text \<open>What the handler makes of the result of \<^verbatim>\<open>render_script\<close>.\<close>

lemma render_video_B_of_failure:
  assumes "script_field data = Value s" and "s \<noteq> []"
    and "fst (render_script_B e s (uuid4 e (uuid_count w))
             (get_quality (quality_field data) (default_quality e))
             (get_default (format_field data) (default_format e))
             (get (scene_name_field data))
             (case get_default (return_base64_field data) False of
                None \<Rightarrow> False | Some flag \<Rightarrow> flag)
             (w\<lparr>uuid_count := Suc (uuid_count w)\<rparr>))
         = failure_result e msg (uuid4 e (uuid_count w))"
  shows "fst (render_video_B e (Object data) w)
         = (500, failure_result e msg (uuid4 e (uuid_count w)))"
proof -
  let ?R = "render_script_B e s (uuid4 e (uuid_count w))
             (get_quality (quality_field data) (default_quality e))
             (get_default (format_field data) (default_format e))
             (get (scene_name_field data))
             (case get_default (return_base64_field data) False of
                None \<Rightarrow> False | Some flag \<Rightarrow> flag)
             (w\<lparr>uuid_count := Suc (uuid_count w)\<rparr>)"
  obtain res w1 where R: "?R = (res, w1)" by (cases ?R) auto
  with assms(3) have "res = failure_result e msg (uuid4 e (uuid_count w))" by simp
  with R show ?thesis by (simp add: render_video_B_renders [OF assms(1,2)])
qed

lemma render_video_A_of_failure:
  assumes "script_field data = Value s" and "s \<noteq> []"
    and "fst (render_script_A e s (uuid4 e (uuid_count w))
             (get_quality (quality_field data) (default_quality e))
             (get_default (format_field data) (default_format e))
             (get (scene_name_field data))
             (w\<lparr>uuid_count := Suc (uuid_count w)\<rparr>))
         = Inr (failure_result e msg (uuid4 e (uuid_count w)))"
  shows "fst (render_video_A e (Object data) w)
         = (500, failure_result e msg (uuid4 e (uuid_count w)))"
proof -
  let ?R = "render_script_A e s (uuid4 e (uuid_count w))
             (get_quality (quality_field data) (default_quality e))
             (get_default (format_field data) (default_format e))
             (get (scene_name_field data))
             (w\<lparr>uuid_count := Suc (uuid_count w)\<rparr>)"
  obtain r w1 where R: "?R = (r, w1)" by (cases ?R) auto
  with assms(3) have "r = Inr (failure_result e msg (uuid4 e (uuid_count w)))" by simp
  with R show ?thesis by (simp add: render_video_A_renders [OF assms(1,2)])
qed

lemma render_video_A_of_raise:
  assumes "script_field data = Value s" and "s \<noteq> []"
    and "quality_mapping_get
           (py_or (get_quality (quality_field data) (default_quality e)) (default_quality e))
         = Inl message"
  shows "fst (render_video_A e (Object data) w) = (500, internal_error e message)"
  by (simp add: render_video_A_renders [OF assms(1,2)] render_script_A_raises [OF assms(3)])

lemma render_video_B_response:
  assumes "script_field data = Value s" and "s \<noteq> []"
  shows "(fst (fst (render_video_B e (Object data) w)) = 200
          \<and> map_of (snd (fst (render_video_B e (Object data) w))) ''success''
              = Some (JBool True))
       \<or> (\<exists>msg. fst (render_video_B e (Object data) w)
                  = (500, failure_result e msg (uuid4 e (uuid_count w))))"
proof -
  let ?R = "render_script_B e s (uuid4 e (uuid_count w))
             (get_quality (quality_field data) (default_quality e))
             (get_default (format_field data) (default_format e))
             (get (scene_name_field data))
             (case get_default (return_base64_field data) False of
                None \<Rightarrow> False | Some flag \<Rightarrow> flag)
             (w\<lparr>uuid_count := Suc (uuid_count w)\<rparr>)"
  obtain res w1 where R: "?R = (res, w1)" by (cases ?R) auto
  from render_script_B_shape [where e = e and s = s and rid = "uuid4 e (uuid_count w)"
      and q = "get_quality (quality_field data) (default_quality e)"
      and f = "get_default (format_field data) (default_format e)"
      and sn = "get (scene_name_field data)"
      and ?b64.0 = "case get_default (return_base64_field data) False of
                None \<Rightarrow> False | Some flag \<Rightarrow> flag"
      and w = "w\<lparr>uuid_count := Suc (uuid_count w)\<rparr>"] R
  have "map_of res ''success'' = Some (JBool True)
      \<or> (\<exists>msg. res = failure_result e msg (uuid4 e (uuid_count w)))" by simp
  then show ?thesis
  proof
    assume "map_of res ''success'' = Some (JBool True)"
    with R show ?thesis by (simp add: render_video_B_renders [OF assms])
  next
    assume "\<exists>msg. res = failure_result e msg (uuid4 e (uuid_count w))"
    then obtain msg where "res = failure_result e msg (uuid4 e (uuid_count w))" by blast
    with R have "fst ?R = failure_result e msg (uuid4 e (uuid_count w))" by simp
    from render_video_B_of_failure [OF assms this] show ?thesis by blast
  qed
qed

lemma render_video_A_response:
  assumes "script_field data = Value s" and "s \<noteq> []"
    and "quality_mapping_get
           (py_or (get_quality (quality_field data) (default_quality e)) (default_quality e))
         = Inr flag"
  shows "(fst (fst (render_video_A e (Object data) w)) = 200
          \<and> map_of (snd (fst (render_video_A e (Object data) w))) ''success''
              = Some (JBool True))
       \<or> (\<exists>msg. fst (render_video_A e (Object data) w)
                  = (500, failure_result e msg (uuid4 e (uuid_count w))))"
proof -
  let ?R = "render_script_A e s (uuid4 e (uuid_count w))
             (get_quality (quality_field data) (default_quality e))
             (get_default (format_field data) (default_format e))
             (get (scene_name_field data))
             (w\<lparr>uuid_count := Suc (uuid_count w)\<rparr>)"
  from render_script_A_shape [where e = e and s = s and rid = "uuid4 e (uuid_count w)"
      and q = "get_quality (quality_field data) (default_quality e)"
      and f = "get_default (format_field data) (default_format e)"
      and sn = "get (scene_name_field data)"
      and w = "w\<lparr>uuid_count := Suc (uuid_count w)\<rparr>"] assms(3)
  obtain res where res: "fst ?R = Inr res"
    "map_of res ''success'' = Some (JBool True)
      \<or> (\<exists>msg. res = failure_result e msg (uuid4 e (uuid_count w)))" by auto
  from res(2) show ?thesis
  proof
    assume "map_of res ''success'' = Some (JBool True)"
    moreover obtain w1 where "?R = (Inr res, w1)" using res(1) by (cases ?R) auto
    ultimately show ?thesis
      by (simp add: render_video_A_renders [OF assms(1,2)])
  next
    assume "\<exists>msg. res = failure_result e msg (uuid4 e (uuid_count w))"
    then obtain msg where "res = failure_result e msg (uuid4 e (uuid_count w))" by blast
    with res(1) have "fst ?R = Inr (failure_result e msg (uuid4 e (uuid_count w)))" by simp
    from render_video_A_of_failure [OF assms(1,2) this] show ?thesis by blast
  qed
qed


text \<open>
  Claim C5, as the code has it. For both variants, with the request identifier the handler
  generated:

  \<^item> a malformed request (no body, an empty dictionary, or a dictionary in which \<^verbatim>\<open>script\<close>
    is absent, \<^verbatim>\<open>null\<close> or empty) is answered with status 400 and a body that holds the
    key \<^verbatim>\<open>error\<close> alone;
  \<^item> a fault outside the \<^verbatim>\<open>try\<close> statement of \<^verbatim>\<open>render_script\<close> (\<^verbatim>\<open>get_json\<close> raises, the
    body is no dictionary, and in variant A the quality is a list or a dictionary, which
    the look-up of the quality flag cannot hash) is answered with status 500 and the
    three fields \<^verbatim>\<open>success\<close> (false), \<^verbatim>\<open>error\<close> and \<^verbatim>\<open>timestamp\<close>, without a request
    identifier;
  \<^item> a failure inside the \<^verbatim>\<open>try\<close> statement is answered with status 500 and the four
    fields \<^verbatim>\<open>success\<close> (false), \<^verbatim>\<open>error\<close>, \<^verbatim>\<open>request_id\<close> and \<^verbatim>\<open>timestamp\<close>, where the
    error text is \<^verbatim>\<open>Rendering failed:\<close> followed by the text of the exception (the
    validation message, the captured standard error after a non-zero exit, the
    missing-file message, the text of any other exception), or the timeout message;
  \<^item> every response to a well-formed request is a success with status 200 or such a
    four-field failure with status 500 (in variant A: when the quality can be hashed).
\<close>

theorem failure_responses_by_cause:
  fixes e :: env and w :: world and data body :: request_json
  assumes script: "script_field data = Value script_content"
    and nonempty: "script_content \<noteq> []"
  defines "request_id \<equiv> uuid4 e (uuid_count w)"
    and "format \<equiv> or_default (get_default (format_field data) (default_format e))
                      (default_format e)"
    and "Q \<equiv> py_or (get_quality (quality_field data) (default_quality e)) (default_quality e)"
    and "written \<equiv> fs_write (script_file_of (uuid4 e (uuid_count w))) script_content (files w)"
    and "command \<equiv> \<lambda>quality_args.
           build_cmd (script_file_of (uuid4 e (uuid_count w))) (uuid4 e (uuid_count w))
             (render_output_dir_of (uuid4 e (uuid_count w))) quality_args
             (or_default (get_default (format_field data) (default_format e))
                (default_format e))
             (get (scene_name_field data))"
    and "reached \<equiv> fst (validate_script script_content) \<and> write_fault e = None
                      \<and> mkdir_fault e = None"
    and "four_fields \<equiv> \<lambda>message.
           [(''success'', JBool False), (''error'', JStr message),
            (''request_id'', JStr (uuid4 e (uuid_count w))),
            (''timestamp'', JStr (utcnow e))]"
    and "three_fields \<equiv> \<lambda>message.
           [(''success'', JBool False),
            (''error'', JStr (''Internal server error: '' @ message)),
            (''timestamp'', JStr (utcnow e))]"
    and "A \<equiv> fst (render_video_A e (Object data) w)"
    and "B \<equiv> fst (render_video_B e (Object data) w)"
  shows "(fst (render_video_A e FalsyValue w) = (400, [(''error'', JStr ''No JSON data provided'')]))
    \<and> (fst (render_video_B e FalsyValue w) = (400, [(''error'', JStr ''No JSON data provided'')]))
    \<and> (dict_is_empty body \<longrightarrow>
        fst (render_video_A e (Object body) w)
          = (400, [(''error'', JStr ''No JSON data provided'')])
        \<and> fst (render_video_B e (Object body) w)
          = (400, [(''error'', JStr ''No JSON data provided'')]))
    \<and> (\<not> dict_is_empty body
        \<and> (script_field body = Absent \<or> script_field body = Null
             \<or> script_field body = Value []) \<longrightarrow>
        fst (render_video_A e (Object body) w)
          = (400, [(''error'', JStr ''No script content provided'')])
        \<and> fst (render_video_B e (Object body) w)
          = (400, [(''error'', JStr ''No script content provided'')]))
    \<and> (fst (render_video_A e (Raised message) w) = (500, three_fields message))
    \<and> (fst (render_video_B e (Raised message) w) = (500, three_fields message))
    \<and> (fst (render_video_A e (NonObject type_name) w)
        = (500, three_fields (no_attribute_get type_name)))
    \<and> (fst (render_video_B e (NonObject type_name) w)
        = (500, three_fields (no_attribute_get type_name)))
    \<and> (quality_mapping_get Q = Inl message \<longrightarrow> A = (500, three_fields message))
    \<and> (\<not> fst (validate_script script_content) \<longrightarrow>
          B = (500, four_fields (''Rendering failed: Script validation failed: ''
                 @ snd (validate_script script_content))))
    \<and> (reached \<and> manim e (command [''--'' @ format_value e Q]) written = TimeoutExpired files_left \<longrightarrow>
          B = (500, four_fields (''Rendering timeout after '' @ str_int (max_render_time e)
                 @ '' seconds'')))
    \<and> (reached \<and> manim e (command [''--'' @ format_value e Q]) written
                      = CompletedProcess returncode out err files_left
           \<and> returncode \<noteq> 0 \<longrightarrow>
          B = (500, four_fields (''Rendering failed: Manim rendering failed: '' @ err)))
    \<and> (reached \<and> manim e (command [''--'' @ format_value e Q]) written = CompletedProcess 0 out err files_left
           \<and> rglob (fnmatch e) (render_output_dir_of request_id) (''*.'' @ format) files_left = []
           \<longrightarrow> B = (500, four_fields (''Rendering failed: No video file found after rendering'')))
    \<and> (fst (validate_script script_content) \<and> write_fault e = Some message \<longrightarrow>
          B = (500, four_fields (''Rendering failed: '' @ message)))
    \<and> (fst (validate_script script_content) \<and> write_fault e = None
           \<and> mkdir_fault e = Some message \<longrightarrow>
          B = (500, four_fields (''Rendering failed: '' @ message)))
    \<and> (reached \<and> manim e (command [''--'' @ format_value e Q]) written = LaunchError message \<longrightarrow>
          B = (500, four_fields (''Rendering failed: '' @ message)))
    \<and> ((fst B = 200 \<and> map_of (snd B) ''success'' = Some (JBool True))
          \<or> (\<exists>msg. B = (500, four_fields msg)))
    \<and> (\<forall>flag. quality_mapping_get Q = Inr flag \<longrightarrow>
          (\<not> fst (validate_script script_content) \<longrightarrow>
          A = (500, four_fields (''Rendering failed: Script validation failed: ''
                 @ snd (validate_script script_content))))
          \<and> (reached \<and> manim e (command [''--quality'', flag]) written = TimeoutExpired files_left \<longrightarrow>
          A = (500, four_fields (''Rendering timeout after '' @ str_int (max_render_time e)
                 @ '' seconds'')))
          \<and> (reached \<and> manim e (command [''--quality'', flag]) written
                      = CompletedProcess returncode out err files_left
           \<and> returncode \<noteq> 0 \<longrightarrow>
          A = (500, four_fields (''Rendering failed: Manim rendering failed: '' @ err)))
          \<and> (reached \<and> manim e (command [''--quality'', flag]) written = CompletedProcess 0 out err files_left
           \<and> rglob (fnmatch e) (render_output_dir_of request_id) (''*.'' @ format) files_left = []
           \<longrightarrow> A = (500, four_fields (''Rendering failed: No video file found after rendering'')))
          \<and> (fst (validate_script script_content) \<and> write_fault e = Some message \<longrightarrow>
          A = (500, four_fields (''Rendering failed: '' @ message)))
          \<and> (fst (validate_script script_content) \<and> write_fault e = None
           \<and> mkdir_fault e = Some message \<longrightarrow>
          A = (500, four_fields (''Rendering failed: '' @ message)))
          \<and> (reached \<and> manim e (command [''--quality'', flag]) written = LaunchError message \<longrightarrow>
          A = (500, four_fields (''Rendering failed: '' @ message)))
          \<and> ((fst A = 200 \<and> map_of (snd A) ''success'' = Some (JBool True))
          \<or> (\<exists>msg. A = (500, four_fields msg))))"
proof -
  let ?w0 = "w\<lparr>uuid_count := Suc (uuid_count w)\<rparr>"
  have files0: "files ?w0 = files w" by simp
  note unf = A_def B_def four_fields_def three_fields_def request_id_def format_def Q_def
    written_def command_def reached_def
  note liftB = render_video_B_of_failure [OF script nonempty, of e w, unfolded failure_result_def]
  note liftA = render_video_A_of_failure [OF script nonempty, of e w, unfolded failure_result_def]
  note bc = render_script_B_by_cause [where e = e and s = script_content
      and rid = "uuid4 e (uuid_count w)"
      and q = "get_quality (quality_field data) (default_quality e)"
      and f = "get_default (format_field data) (default_format e)"
      and sn = "get (scene_name_field data)"
      and ?b64.0 = "case get_default (return_base64_field data) False of
                None \<Rightarrow> False | Some flag \<Rightarrow> flag"
      and w = ?w0, unfolded files0 failure_result_def]
  have m1: "fst (render_video_A e FalsyValue w) = (400, [(''error'', JStr ''No JSON data provided'')])"
    by (auto simp: render_video_A_def render_video_B_def Let_def get_def)
  have m2: "fst (render_video_B e FalsyValue w) = (400, [(''error'', JStr ''No JSON data provided'')])"
    by (auto simp: render_video_A_def render_video_B_def Let_def get_def)
  have m3: "dict_is_empty body \<longrightarrow>
        fst (render_video_A e (Object body) w)
          = (400, [(''error'', JStr ''No JSON data provided'')])
        \<and> fst (render_video_B e (Object body) w)
          = (400, [(''error'', JStr ''No JSON data provided'')])"
    by (auto simp: render_video_A_def render_video_B_def Let_def get_def)
  have m4: "\<not> dict_is_empty body
        \<and> (script_field body = Absent \<or> script_field body = Null
             \<or> script_field body = Value []) \<longrightarrow>
        fst (render_video_A e (Object body) w)
          = (400, [(''error'', JStr ''No script content provided'')])
        \<and> fst (render_video_B e (Object body) w)
          = (400, [(''error'', JStr ''No script content provided'')])"
    by (auto simp: render_video_A_def render_video_B_def Let_def get_def)
  have h1: "fst (render_video_A e (Raised message) w) = (500, three_fields message)"
    by (simp add: render_video_A_def render_video_B_def Let_def internal_error_def
          three_fields_def)
  have h2: "fst (render_video_B e (Raised message) w) = (500, three_fields message)"
    by (simp add: render_video_A_def render_video_B_def Let_def internal_error_def
          three_fields_def)
  have h3: "fst (render_video_A e (NonObject type_name) w)
        = (500, three_fields (no_attribute_get type_name))"
    by (simp add: render_video_A_def render_video_B_def Let_def internal_error_def
          three_fields_def)
  have h4: "fst (render_video_B e (NonObject type_name) w)
        = (500, three_fields (no_attribute_get type_name))"
    by (simp add: render_video_A_def render_video_B_def Let_def internal_error_def
          three_fields_def)
  have h5: "quality_mapping_get Q = Inl message \<longrightarrow> A = (500, three_fields message)"
    using render_video_A_of_raise [OF script nonempty, of e _ w]
    by (simp add: unf internal_error_def)
  have b_invalid: "\<not> fst (validate_script script_content) \<longrightarrow>
          B = (500, four_fields (''Rendering failed: Script validation failed: ''
                 @ snd (validate_script script_content)))"
    unfolding unf by (intro impI liftB bc(1); (elim conjE)?; assumption)
  have b_timeout: "reached \<and> manim e (command [''--'' @ format_value e Q]) written = TimeoutExpired files_left \<longrightarrow>
          B = (500, four_fields (''Rendering timeout after '' @ str_int (max_render_time e)
                 @ '' seconds''))"
    unfolding unf by (intro impI liftB bc(4); (elim conjE)?; assumption)
  have b_nonzero: "reached \<and> manim e (command [''--'' @ format_value e Q]) written
                      = CompletedProcess returncode out err files_left
           \<and> returncode \<noteq> 0 \<longrightarrow>
          B = (500, four_fields (''Rendering failed: Manim rendering failed: '' @ err))"
    unfolding unf by (intro impI liftB bc(6); (elim conjE)?; assumption)
  have b_missing: "reached \<and> manim e (command [''--'' @ format_value e Q]) written = CompletedProcess 0 out err files_left
           \<and> rglob (fnmatch e) (render_output_dir_of request_id) (''*.'' @ format) files_left = []
           \<longrightarrow> B = (500, four_fields (''Rendering failed: No video file found after rendering''))"
    unfolding unf by (intro impI liftB bc(7); (elim conjE)?; assumption)
  have b_write: "fst (validate_script script_content) \<and> write_fault e = Some message \<longrightarrow>
          B = (500, four_fields (''Rendering failed: '' @ message))"
    unfolding unf by (intro impI liftB bc(2); (elim conjE)?; assumption)
  have b_mkdir: "fst (validate_script script_content) \<and> write_fault e = None
           \<and> mkdir_fault e = Some message \<longrightarrow>
          B = (500, four_fields (''Rendering failed: '' @ message))"
    unfolding unf by (intro impI liftB bc(3); (elim conjE)?; assumption)
  have b_launch: "reached \<and> manim e (command [''--'' @ format_value e Q]) written = LaunchError message \<longrightarrow>
          B = (500, four_fields (''Rendering failed: '' @ message))"
    unfolding unf by (intro impI liftB bc(5); (elim conjE)?; assumption)
  have b_shape: "(fst B = 200 \<and> map_of (snd B) ''success'' = Some (JBool True))
          \<or> (\<exists>msg. B = (500, four_fields msg))"
    using render_video_B_response [OF script nonempty, of e w]
    by (simp add: unf failure_result_def)
  have a: "\<forall>flag. quality_mapping_get Q = Inr flag \<longrightarrow>
          (\<not> fst (validate_script script_content) \<longrightarrow>
          A = (500, four_fields (''Rendering failed: Script validation failed: ''
                 @ snd (validate_script script_content))))
          \<and> (reached \<and> manim e (command [''--quality'', flag]) written = TimeoutExpired files_left \<longrightarrow>
          A = (500, four_fields (''Rendering timeout after '' @ str_int (max_render_time e)
                 @ '' seconds'')))
          \<and> (reached \<and> manim e (command [''--quality'', flag]) written
                      = CompletedProcess returncode out err files_left
           \<and> returncode \<noteq> 0 \<longrightarrow>
          A = (500, four_fields (''Rendering failed: Manim rendering failed: '' @ err)))
          \<and> (reached \<and> manim e (command [''--quality'', flag]) written = CompletedProcess 0 out err files_left
           \<and> rglob (fnmatch e) (render_output_dir_of request_id) (''*.'' @ format) files_left = []
           \<longrightarrow> A = (500, four_fields (''Rendering failed: No video file found after rendering'')))
          \<and> (fst (validate_script script_content) \<and> write_fault e = Some message \<longrightarrow>
          A = (500, four_fields (''Rendering failed: '' @ message)))
          \<and> (fst (validate_script script_content) \<and> write_fault e = None
           \<and> mkdir_fault e = Some message \<longrightarrow>
          A = (500, four_fields (''Rendering failed: '' @ message)))
          \<and> (reached \<and> manim e (command [''--quality'', flag]) written = LaunchError message \<longrightarrow>
          A = (500, four_fields (''Rendering failed: '' @ message)))
          \<and> ((fst A = 200 \<and> map_of (snd A) ''success'' = Some (JBool True))
          \<or> (\<exists>msg. A = (500, four_fields msg)))"
  proof (intro allI impI)
    fix flag
    assume flag: "quality_mapping_get Q = Inr flag"
    note ac = render_script_A_by_cause [OF flag [unfolded Q_def],
        where s = script_content and rid = "uuid4 e (uuid_count w)"
        and f = "get_default (format_field data) (default_format e)"
        and sn = "get (scene_name_field data)"
        and w = ?w0, unfolded files0 failure_result_def]
    have a_invalid: "\<not> fst (validate_script script_content) \<longrightarrow>
          A = (500, four_fields (''Rendering failed: Script validation failed: ''
                 @ snd (validate_script script_content)))"
      unfolding unf by (intro impI liftA ac(1); (elim conjE)?; assumption)
    have a_timeout: "reached \<and> manim e (command [''--quality'', flag]) written = TimeoutExpired files_left \<longrightarrow>
          A = (500, four_fields (''Rendering timeout after '' @ str_int (max_render_time e)
                 @ '' seconds''))"
      unfolding unf by (intro impI liftA ac(4); (elim conjE)?; assumption)
    have a_nonzero: "reached \<and> manim e (command [''--quality'', flag]) written
                      = CompletedProcess returncode out err files_left
           \<and> returncode \<noteq> 0 \<longrightarrow>
          A = (500, four_fields (''Rendering failed: Manim rendering failed: '' @ err))"
      unfolding unf by (intro impI liftA ac(6); (elim conjE)?; assumption)
    have a_missing: "reached \<and> manim e (command [''--quality'', flag]) written = CompletedProcess 0 out err files_left
           \<and> rglob (fnmatch e) (render_output_dir_of request_id) (''*.'' @ format) files_left = []
           \<longrightarrow> A = (500, four_fields (''Rendering failed: No video file found after rendering''))"
      unfolding unf by (intro impI liftA ac(7); (elim conjE)?; assumption)
    have a_write: "fst (validate_script script_content) \<and> write_fault e = Some message \<longrightarrow>
          A = (500, four_fields (''Rendering failed: '' @ message))"
      unfolding unf by (intro impI liftA ac(2); (elim conjE)?; assumption)
    have a_mkdir: "fst (validate_script script_content) \<and> write_fault e = None
           \<and> mkdir_fault e = Some message \<longrightarrow>
          A = (500, four_fields (''Rendering failed: '' @ message))"
      unfolding unf by (intro impI liftA ac(3); (elim conjE)?; assumption)
    have a_launch: "reached \<and> manim e (command [''--quality'', flag]) written = LaunchError message \<longrightarrow>
          A = (500, four_fields (''Rendering failed: '' @ message))"
      unfolding unf by (intro impI liftA ac(5); (elim conjE)?; assumption)
    have a_shape: "(fst A = 200 \<and> map_of (snd A) ''success'' = Some (JBool True))
          \<or> (\<exists>msg. A = (500, four_fields msg))"
      using render_video_A_response [OF script nonempty flag [unfolded Q_def], of w]
      by (simp add: unf failure_result_def)
    from a_invalid a_timeout a_nonzero a_missing a_write a_mkdir a_launch a_shape
    show "(\<not> fst (validate_script script_content) \<longrightarrow>
          A = (500, four_fields (''Rendering failed: Script validation failed: ''
                 @ snd (validate_script script_content))))
          \<and> (reached \<and> manim e (command [''--quality'', flag]) written = TimeoutExpired files_left \<longrightarrow>
          A = (500, four_fields (''Rendering timeout after '' @ str_int (max_render_time e)
                 @ '' seconds'')))
          \<and> (reached \<and> manim e (command [''--quality'', flag]) written
                      = CompletedProcess returncode out err files_left
           \<and> returncode \<noteq> 0 \<longrightarrow>
          A = (500, four_fields (''Rendering failed: Manim rendering failed: '' @ err)))
          \<and> (reached \<and> manim e (command [''--quality'', flag]) written = CompletedProcess 0 out err files_left
           \<and> rglob (fnmatch e) (render_output_dir_of request_id) (''*.'' @ format) files_left = []
           \<longrightarrow> A = (500, four_fields (''Rendering failed: No video file found after rendering'')))
          \<and> (fst (validate_script script_content) \<and> write_fault e = Some message \<longrightarrow>
          A = (500, four_fields (''Rendering failed: '' @ message)))
          \<and> (fst (validate_script script_content) \<and> write_fault e = None
           \<and> mkdir_fault e = Some message \<longrightarrow>
          A = (500, four_fields (''Rendering failed: '' @ message)))
          \<and> (reached \<and> manim e (command [''--quality'', flag]) written = LaunchError message \<longrightarrow>
          A = (500, four_fields (''Rendering failed: '' @ message)))
          \<and> ((fst A = 200 \<and> map_of (snd A) ''success'' = Some (JBool True))
          \<or> (\<exists>msg. A = (500, four_fields msg)))"
      by (intro conjI)
  qed
  from m1 m2 m3 m4 h1 h2 h3 h4 h5 b_invalid b_timeout b_nonzero b_missing b_write b_mkdir b_launch b_shape a
  show ?thesis by (intro conjI)
qed


theorem failure_responses_by_cause_witness:
  "script_field stub_request = Value good_script
   \<and> good_script \<noteq> []
   \<and> fst (render_video_B
            (stub_env\<lparr>manim := (\<lambda>cmd files_now. CompletedProcess 1 [] ''boom'' files_now)\<rparr>)
            (Object stub_request) empty_world)
       = (500, [(''success'', JBool False),
                (''error'', JStr ''Rendering failed: Manim rendering failed: boom''),
                (''request_id'', JStr ''req0''),
                (''timestamp'', JStr ''2024-01-01T00:00:00'')])
   \<and> fst (render_video_A
            (stub_env\<lparr>manim := (\<lambda>cmd files_now. CompletedProcess 1 [] ''boom'' files_now)\<rparr>)
            (Object stub_request) empty_world)
       = (500, [(''success'', JBool False),
                (''error'', JStr ''Rendering failed: Manim rendering failed: boom''),
                (''request_id'', JStr ''req0''),
                (''timestamp'', JStr ''2024-01-01T00:00:00'')])"
proof -
  let ?e = "stub_env\<lparr>manim := (\<lambda>cmd files_now. CompletedProcess 1 [] ''boom'' files_now)\<rparr>"
  let ?left = "fs_write (script_file_of ''req0'') good_script []"
  have h1: "script_field stub_request = Value good_script" and h2: "good_script \<noteq> []"
    by (simp_all add: stub_request_def good_script_def)
  have v: "fst (validate_script good_script)"
    by (simp add: good_script_def validate_script_def dangerous_imports_def)
  have f: "write_fault ?e = None" "mkdir_fault ?e = None" "utcnow ?e = ''2024-01-01T00:00:00''"
    "uuid4 ?e (uuid_count empty_world) = ''req0''" "files empty_world = []"
    "uuid4 stub_env (uuid_count empty_world) = ''req0''" "utcnow stub_env = ''2024-01-01T00:00:00''"
    "write_fault stub_env = None" "mkdir_fault stub_env = None"
    "manim ?e = (\<lambda>cmd files_now. CompletedProcess 1 [] ''boom'' files_now)"
    by (simp_all add: stub_env_def empty_world_def)
  have q: "quality_mapping_get
             (py_or (get_quality (quality_field stub_request) (default_quality ?e))
                (default_quality ?e)) = Inr ''m''"
    by (simp add: stub_request_def stub_env_def get_quality_def py_or_def quality_flag_of_def
          quality_mapping_def quality_mapping_get_def)
  note t = failure_responses_by_cause [OF h1 h2, where e = ?e and w = empty_world
      and returncode = 1 and out = "[]" and err = "''boom''" and files_left = ?left]
  note tB = t [THEN conjunct2, THEN conjunct2, THEN conjunct2, THEN conjunct2, THEN conjunct2, THEN conjunct2, THEN conjunct2, THEN conjunct2, THEN conjunct2, THEN conjunct2, THEN conjunct2, THEN conjunct1, THEN mp]
  note tA = t [THEN conjunct2, THEN conjunct2, THEN conjunct2, THEN conjunct2, THEN conjunct2, THEN conjunct2, THEN conjunct2, THEN conjunct2, THEN conjunct2, THEN conjunct2, THEN conjunct2, THEN conjunct2, THEN conjunct2, THEN conjunct2, THEN conjunct2, THEN conjunct2, THEN conjunct2, THEN spec, THEN mp, OF q,
      THEN conjunct2, THEN conjunct2, THEN conjunct1, THEN mp]
  have b: "fst (render_video_B ?e (Object stub_request) empty_world)
       = (500, [(''success'', JBool False),
                (''error'', JStr ''Rendering failed: Manim rendering failed: boom''),
                (''request_id'', JStr ''req0''),
                (''timestamp'', JStr ''2024-01-01T00:00:00'')])"
    using tB by (simp add: f v)
  have a: "fst (render_video_A ?e (Object stub_request) empty_world)
       = (500, [(''success'', JBool False),
                (''error'', JStr ''Rendering failed: Manim rendering failed: boom''),
                (''request_id'', JStr ''req0''),
                (''timestamp'', JStr ''2024-01-01T00:00:00'')])"
    using tA by (simp add: f v)
  from h1 h2 a b show ?thesis by (intro conjI)
qed

text \<open>
  Claim C5, as stated, fails: the body that answers a missing request body holds the key
  \<^verbatim>\<open>error\<close> and nothing else.
\<close>

theorem failure_body_counterexample:
  "fst (render_video_A stub_env FalsyValue empty_world)
     = (400, [(''error'', JStr ''No JSON data provided'')])
   \<and> map_of (snd (fst (render_video_A stub_env FalsyValue empty_world))) ''success'' = None
   \<and> map_of (snd (fst (render_video_A stub_env FalsyValue empty_world))) ''request_id'' = None
   \<and> map_of (snd (fst (render_video_A stub_env FalsyValue empty_world))) ''timestamp'' = None"
  by (simp add: render_video_A_def Let_def)

text \<open>An unhashable quality in variant A: the exception leaves \<^verbatim>\<open>render_script\<close>, and the
  body has three fields.\<close>

lemma unhashable_quality_response:
  "fst (render_video_A stub_env
          (Object (stub_request\<lparr>quality_field := Value (JList [JStr ''x''])\<rparr>)) empty_world)
   = (500, [(''success'', JBool False),
            (''error'', JStr (''Internal server error: unhashable type: ''
                                @ [CHR 0x27] @ ''list'' @ [CHR 0x27])),
            (''timestamp'', JStr ''2024-01-01T00:00:00'')])"
  by (simp add: handler_defs stub_defs)

text \<open>
  Claim C2, as the code has it. When \<^verbatim>\<open>get_json\<close> returns a falsy value (a missing body),
  or a dictionary in which \<^verbatim>\<open>script\<close> is absent, \<^verbatim>\<open>null\<close> or the empty string, both
  handlers answer 400 with a body that holds an error message and no request identifier,
  and the world is left as it was but for one identifier drawn from the generator: the
  first statement of the handler generates it, before the body is looked at. No file is
  written, no command launched, nothing uploaded, unlinked or measured.
\<close>

theorem malformed_request_answered_400:
  assumes "parsed = FalsyValue
         \<or> (\<exists>data. parsed = Object data
               \<and> (script_field data = Absent \<or> script_field data = Null
                    \<or> script_field data = Value []))"
  shows "\<exists>msg. render_video_A e parsed w
                 = ((400, [(''error'', JStr msg)]), w\<lparr>uuid_count := Suc (uuid_count w)\<rparr>)
             \<and> render_video_B e parsed w
                 = ((400, [(''error'', JStr msg)]), w\<lparr>uuid_count := Suc (uuid_count w)\<rparr>)"
  using assms
  by (auto simp: render_video_A_def render_video_B_def Let_def get_def)

text \<open>
  Claim C2, as stated, fails: a request without a body draws an identifier from the
  generator all the same; and a body that is a JSON array, which has no \<^verbatim>\<open>script\<close> field,
  is answered with 500, since \<^verbatim>\<open>data.get\<close> raises \<^verbatim>\<open>AttributeError\<close> on a list.
\<close>

theorem malformed_request_counterexample:
  "uuid_count empty_world = 0
   \<and> render_video_A stub_env FalsyValue empty_world
       = ((400, [(''error'', JStr ''No JSON data provided'')]), empty_world\<lparr>uuid_count := 1\<rparr>)
   \<and> render_video_B stub_env FalsyValue empty_world
       = ((400, [(''error'', JStr ''No JSON data provided'')]), empty_world\<lparr>uuid_count := 1\<rparr>)
   \<and> fst (fst (render_video_A stub_env (NonObject ''list'') empty_world)) = 500
   \<and> fst (fst (render_video_B stub_env (NonObject ''list'') empty_world)) = 500"
  by (simp add: render_video_A_def render_video_B_def Let_def empty_world_def)

theorem malformed_request_answered_400_witness:
  "render_video_A stub_env (Object (stub_request\<lparr>script_field := Value []\<rparr>)) empty_world
     = ((400, [(''error'', JStr ''No script content provided'')]),
        empty_world\<lparr>uuid_count := 1\<rparr>)
   \<and> render_video_B stub_env (Object (stub_request\<lparr>script_field := Value []\<rparr>)) empty_world
     = ((400, [(''error'', JStr ''No script content provided'')]),
        empty_world\<lparr>uuid_count := 1\<rparr>)"
proof -
  let ?p = "Object (stub_request\<lparr>script_field := Value []\<rparr>)"
  have h: "?p = FalsyValue
         \<or> (\<exists>data. ?p = Object data
               \<and> (script_field data = Absent \<or> script_field data = Null
                    \<or> script_field data = Value []))"
    by simp
  from malformed_request_answered_400 [OF h, of stub_env empty_world]
  obtain msg where m: "render_video_A stub_env ?p empty_world
                 = ((400, [(''error'', JStr msg)]),
                    empty_world\<lparr>uuid_count := Suc (uuid_count empty_world)\<rparr>)"
      "render_video_B stub_env ?p empty_world
                 = ((400, [(''error'', JStr msg)]),
                    empty_world\<lparr>uuid_count := Suc (uuid_count empty_world)\<rparr>)"
    by blast
  have "fst (render_video_A stub_env ?p empty_world)
      = (400, [(''error'', JStr ''No script content provided'')])"
    by (simp add: handler_defs Let_def)
  with m(1) have "msg = ''No script content provided''" by simp
  with m show ?thesis by (simp add: empty_world_def)
qed



section \<open>The status endpoint of variant B\<close>




text \<open>After a render in the format \<^verbatim>\<open>mp4\<close> the status is \<^verbatim>\<open>completed\<close>.\<close>

lemma status_after_stub_render:
  "get_render_status_B stub_env ''r1''
     (snd (render_script_B stub_env good_script ''r1'' JNull None None True empty_world))
   = (200, [(''request_id'', JStr ''r1''),
            (''status'', JStr ''completed''),
            (''file_size'', JInt 5),
            (''download_url'', JStr ''/download/r1'')])"
  unfolding stub_render_B
  by (simp add: get_render_status_B_def rglob_def render_output_dir_of_def
        OUTPUT_DIR_def stub_env_def fnmatch_literal_def basename_def suffix_to_prefix
        fs_read_def)


end
